theory Spec2Isabelle
  imports Main
begin

section \<open>JavaScript values, strings and lists\<close>

text \<open>
  The handlers of \<^verbatim>\<open>src/index.js\<close> move values between the HTTP request, the client of the
  external service and the HTTP response.  A field of a JavaScript object is absent
  (\<open>Undefined\<close>), \<^verbatim>\<open>null\<close>, a string or a number.  Numbers are IEEE doubles; their type is
  left open as \<open>'n\<close>, and the two built-in parsers that produce them are parameters of the
  model (see \<open>env\<close> below).
\<close>

datatype 'n jsval = Undefined | Null | Str string | Num 'n

text \<open>
  \<^verbatim>\<open>s.split(c)\<close> for a separator of one character: the pieces between the occurrences of
  \<open>c\<close>, empty pieces included; the result is never the empty array.
\<close>

fun js_split :: "char \<Rightarrow> string \<Rightarrow> string list" where
  "js_split c [] = [[]]"
| "js_split c (x # xs) =
     (if x = c then [] # js_split c xs
      else (case js_split c xs of [] \<Rightarrow> [[x]] | y # ys \<Rightarrow> (x # y) # ys))"

text \<open>\<^verbatim>\<open>xs[i]\<close>: the element, or \<^verbatim>\<open>undefined\<close> (here \<open>None\<close>) out of range.\<close>

definition at :: "'a list \<Rightarrow> nat \<Rightarrow> 'a option" where
  "at xs i = (if i < length xs then Some (xs ! i) else None)"

text \<open>\<^verbatim>\<open>xs.pop()\<close>: the last element, or \<^verbatim>\<open>undefined\<close> for the empty array.\<close>

definition pop :: "'a list \<Rightarrow> 'a option" where
  "pop xs = (case xs of [] \<Rightarrow> None | _ \<Rightarrow> Some (last xs))"

text \<open>
  Truthiness of a text field that may be absent: \<^verbatim>\<open>undefined\<close> and the empty string are
  falsy, every other string is truthy.
\<close>

definition truthy :: "string option \<Rightarrow> bool" where
  "truthy v = (case v of None \<Rightarrow> False | Some s \<Rightarrow> s \<noteq> [])"

text \<open>
  A value inside a template literal: \<^verbatim>\<open>`${v}`\<close> prints \<^verbatim>\<open>undefined\<close> for an absent string.
\<close>

definition template :: "string option \<Rightarrow> string" where
  "template v = (case v of None \<Rightarrow> ''undefined'' | Some s \<Rightarrow> s)"

text \<open>
  \<^verbatim>\<open>`${Date.now()}`\<close>: the clock is a non-negative integer number of milliseconds, printed
  in decimal without leading zeros.
\<close>

definition digit :: "nat \<Rightarrow> char" where
  "digit d = ''0123456789'' ! d"

fun decimal :: "nat \<Rightarrow> string" where
  "decimal n = (if n < 10 then [digit n] else decimal (n div 10) @ [digit (n mod 10)])"

declare decimal.simps [simp del]


section \<open>Data model\<close>

text \<open>
  The object the create handler assembles (\<^verbatim>\<open>newProperty\<close>, lines 140-147), and a row of
  the table \<^verbatim>\<open>properties\<close>: the same fields and the identifier the data service assigns
  (\<^verbatim>\<open>id\<close>, written \<open>id_p\<close>).
\<close>

record 'n new_property =
  user_id :: string
  title :: "'n jsval"
  price :: "'n jsval"
  image_url :: string
  lat :: "'n jsval"
  lng :: "'n jsval"

record 'n property = "'n new_property" +
  id_p :: string

text \<open>The identity the auth service resolves a token to (\<^verbatim>\<open>data.user\<close>; \<open>id_u\<close> is its \<^verbatim>\<open>id\<close>).\<close>

record user =
  id_u :: string

text \<open>The attachment that multer leaves in \<^verbatim>\<open>req.file\<close>.\<close>

record file_t =
  originalname :: string
  mimetype :: string
  buffer :: string

text \<open>What a handler sends: \<^verbatim>\<open>res.status(n).json(b)\<close>; \<^verbatim>\<open>res.json(b)\<close> has status 200.\<close>

datatype 'n body =
    Error string                      \<comment> \<open>\<^verbatim>\<open>{error: msg}\<close>\<close>
  | Message string                    \<comment> \<open>\<^verbatim>\<open>{message: msg}\<close>\<close>
  | Added "'n property option"        \<comment> \<open>\<^verbatim>\<open>{message: "Property added", property: data[0]}\<close>\<close>
  | Record "'n property"              \<comment> \<open>one row\<close>
  | Records "'n property list"        \<comment> \<open>an array of rows\<close>
  | Nothing                           \<comment> \<open>\<^verbatim>\<open>res.json(undefined)\<close>: an empty body\<close>
  | Json_null                         \<comment> \<open>\<^verbatim>\<open>res.json(null)\<close>\<close>

record 'n response =
  status :: nat
  body :: "'n body"

definition json :: "nat \<Rightarrow> 'n body \<Rightarrow> 'n response" where
  "json n b = \<lparr>status = n, body = b\<rparr>"

section \<open>The external service\<close>

text \<open>
  Every request the handlers make of the external service.  They are recorded, in order,
  in the \<open>calls\<close> of the \<open>world\<close>, so that "no deletion is issued" is a statement about
  the calls and not only about the table.
\<close>

datatype 'n call =
    Get_user "string option"               \<comment> \<open>\<^verbatim>\<open>auth.getUser(token)\<close>\<close>
  | Select_all                             \<comment> \<open>\<^verbatim>\<open>select("*")\<close>\<close>
  | Select_single string string            \<comment> \<open>\<^verbatim>\<open>select(columns).eq("id", id).single()\<close>\<close>
  | Insert "'n new_property"               \<comment> \<open>\<^verbatim>\<open>insert([p]).select()\<close>\<close>
  | Update "'n jsval" "'n jsval" string    \<comment> \<open>\<^verbatim>\<open>update({title, price}).eq("id", id).select()\<close>\<close>
  | Delete string                          \<comment> \<open>\<^verbatim>\<open>delete().eq("id", id)\<close>\<close>
  | Upload string file_t                   \<comment> \<open>\<^verbatim>\<open>storage.upload(path, buffer, {contentType})\<close>\<close>

text \<open>
  \<^verbatim>\<open>getUser\<close> answers \<^verbatim>\<open>{data: {user}, error}\<close> or throws; the upload answers \<^verbatim>\<open>{error}\<close> or
  throws.  The calls on the table answer \<^verbatim>\<open>{data, error}\<close> and do not throw.
\<close>

datatype auth_reply = Auth_throws | Auth_returns "user option" "string option"

datatype upload_reply = Upload_throws string | Upload_returns "string option"

text \<open>
  What a request finds around it and the code does not decide: the built-in parsers
  \<^verbatim>\<open>parseInt\<close> and \<^verbatim>\<open>parseFloat\<close>, the clock \<^verbatim>\<open>Date.now()\<close>, the answers of the auth service
  and of the object storage, the public address of the storage bucket, the
  error (if any) with which the data service answers a call for reasons of its own
  (transport, permissions, constraints), and the identifier it gives to a new row.
\<close>

record 'n env =
  parseInt :: "string \<Rightarrow> 'n"
  parseFloat :: "string \<Rightarrow> 'n"
  now :: nat
  getUser :: "string option \<Rightarrow> auth_reply"
  upload :: "string \<Rightarrow> file_t \<Rightarrow> upload_reply"
  public_base :: string
  db_error :: "'n call \<Rightarrow> string option"
  new_id :: string

text \<open>What the service stores, and the calls made so far.\<close>

record 'n world =
  properties :: "'n property list"
  objects :: "(string \<times> file_t) list"
  calls :: "'n call list"

definition issue :: "'n call \<Rightarrow> 'n world \<Rightarrow> 'n world" where
  "issue c w = w\<lparr>calls := calls w @ [c]\<rparr>"

definition auth_getUser :: "'n env \<Rightarrow> string option \<Rightarrow> 'n world \<Rightarrow> auth_reply \<times> 'n world" where
  "auth_getUser env token w = (getUser env token, issue (Get_user token) w)"

text \<open>
  Modelled from the spec: the data service and the object storage are reached through a
  client that is not part of \<^verbatim>\<open>src/\<close>.  Their effect on the stored rows follows sections 3
  and 4 of the specification: \<^verbatim>\<open>single()\<close> expects exactly one match and answers an error for
  zero or several; an update replaces the fields it names on the rows that match and
  answers those rows; a deletion removes the rows that match; an insertion persists the
  assembled record under the identifier the service assigns and answers it; an upload
  stores the buffer under its path.  A call that the service answers with an error of its
  own changes nothing.
\<close>

definition matching :: "string \<Rightarrow> 'n property list \<Rightarrow> 'n property list" where
  "matching i rows = filter (\<lambda>r. id_p r = i) rows"

definition single :: "'a list \<Rightarrow> 'a option \<times> string option" where
  "single rows = (case rows of [r] \<Rightarrow> (Some r, None)
                  | _ \<Rightarrow> (None, Some ''JSON object requested, multiple (or no) rows returned''))"

definition select_all :: "'n env \<Rightarrow> 'n world \<Rightarrow> ('n property list \<times> string option) \<times> 'n world" where
  "select_all env w =
     (case db_error env Select_all of
        Some m \<Rightarrow> (([], Some m), issue Select_all w)
      | None \<Rightarrow> ((properties w, None), issue Select_all w))"

definition select_single ::
  "'n env \<Rightarrow> string \<Rightarrow> string \<Rightarrow> 'n world \<Rightarrow> ('n property option \<times> string option) \<times> 'n world" where
  "select_single env columns i w =
     (case db_error env (Select_single columns i) of
        Some m \<Rightarrow> ((None, Some m), issue (Select_single columns i) w)
      | None \<Rightarrow> (single (matching i (properties w)), issue (Select_single columns i) w))"

text \<open>A key whose value is \<^verbatim>\<open>undefined\<close> is not sent: the column keeps its value.\<close>

definition patch :: "'n jsval \<Rightarrow> 'n jsval \<Rightarrow> 'n property \<Rightarrow> 'n property" where
  "patch t p r = r\<lparr>title := (if t = Undefined then title r else t),
                   price := (if p = Undefined then price r else p)\<rparr>"

definition update_rows ::
  "'n env \<Rightarrow> 'n jsval \<Rightarrow> 'n jsval \<Rightarrow> string \<Rightarrow> 'n world \<Rightarrow> ('n property list \<times> string option) \<times> 'n world" where
  "update_rows env t p i w =
     (case db_error env (Update t p i) of
        Some m \<Rightarrow> (([], Some m), issue (Update t p i) w)
      | None \<Rightarrow>
          (let rows = map (\<lambda>r. if id_p r = i then patch t p r else r) (properties w)
           in ((matching i rows, None), issue (Update t p i) (w\<lparr>properties := rows\<rparr>))))"

definition delete_rows :: "'n env \<Rightarrow> string \<Rightarrow> 'n world \<Rightarrow> string option \<times> 'n world" where
  "delete_rows env i w =
     (case db_error env (Delete i) of
        Some m \<Rightarrow> (Some m, issue (Delete i) w)
      | None \<Rightarrow> (None, issue (Delete i) (w\<lparr>properties := filter (\<lambda>r. id_p r \<noteq> i) (properties w)\<rparr>)))"

text \<open>A key the record leaves out is stored as \<^verbatim>\<open>null\<close>.\<close>

definition column :: "'n jsval \<Rightarrow> 'n jsval" where
  "column v = (if v = Undefined then Null else v)"

definition stored :: "string \<Rightarrow> 'n new_property \<Rightarrow> 'n property" where
  "stored i p = \<lparr>user_id = user_id p, title = column (title p), price = column (price p),
                 image_url = image_url p, lat = column (lat p), lng = column (lng p), id_p = i\<rparr>"

definition insert_row ::
  "'n env \<Rightarrow> 'n new_property \<Rightarrow> 'n world \<Rightarrow> ('n property list \<times> string option) \<times> 'n world" where
  "insert_row env p w =
     (case db_error env (Insert p) of
        Some m \<Rightarrow> (([], Some m), issue (Insert p) w)
      | None \<Rightarrow>
          (([stored (new_id env) p], None),
           issue (Insert p) (w\<lparr>properties := properties w @ [stored (new_id env) p]\<rparr>)))"

definition storage_upload :: "'n env \<Rightarrow> string \<Rightarrow> file_t \<Rightarrow> 'n world \<Rightarrow> upload_reply \<times> 'n world" where
  "storage_upload env path f w =
     (case upload env path f of
        Upload_returns None \<Rightarrow>
          (Upload_returns None, issue (Upload path f) (w\<lparr>objects := objects w @ [(path, f)]\<rparr>))
      | r \<Rightarrow> (r, issue (Upload path f) w))"


text \<open>
  Modelled from the spec: \<^verbatim>\<open>getPublicUrl\<close> belongs to the storage client, which is not part
  of \<^verbatim>\<open>src/\<close>.  The specification has the handler request "a durable public URL" for the
  uploaded object (section 4.5) and has the image URL "derived from" the file name
  (section 8): the URL is the public address of the bucket followed by the path under
  which the object was stored.
\<close>

definition getPublicUrl :: "'n env \<Rightarrow> string \<Rightarrow> string" where
  "getPublicUrl env path = public_base env @ path"

section \<open>The authentication guard (lines 87-102)\<close>

text \<open>\<^verbatim>\<open>authHeader.split(" ")[1]\<close>\<close>

definition token_of :: "string \<Rightarrow> string option" where
  "token_of authHeader = at (js_split CHR '' '' authHeader) 1"

text \<open>
  The guard answers the request itself (\<open>Inl\<close>) or sets \<^verbatim>\<open>req.user\<close> and calls
  \<^verbatim>\<open>next()\<close> (\<open>Inr\<close>).  \<^verbatim>\<open>!authHeader\<close> holds for an absent header and for the empty one.
\<close>

definition authenticate ::
  "'n env \<Rightarrow> string option \<Rightarrow> 'n world \<Rightarrow> ('n response + user) \<times> 'n world" where
  "authenticate env authorization w =
     (case authorization of
        None \<Rightarrow> (Inl (json 401 (Error ''No token provided'')), w)
      | Some authHeader \<Rightarrow>
          if authHeader = [] then (Inl (json 401 (Error ''No token provided'')), w)
          else
            (case auth_getUser env (token_of authHeader) w of
               (Auth_throws, w') \<Rightarrow> (Inl (json 401 (Error ''Unauthorized'')), w')
             | (Auth_returns u error, w') \<Rightarrow>
                 (case error of
                    Some m \<Rightarrow> (Inl (json 401 (Error ''Invalid token'')), w')
                  | None \<Rightarrow>
                      (case u of
                         None \<Rightarrow> (Inl (json 401 (Error ''Invalid token'')), w')
                       | Some usr \<Rightarrow> (Inr usr, w')))))"

text \<open>
  The user an answer of the auth service resolves the token to, if it does: an answer
  that came back, without error and with a user.
\<close>

fun resolved :: "auth_reply \<Rightarrow> user option" where
  "resolved (Auth_returns (Some usr) None) = Some usr"
| "resolved r = None"

section \<open>The handlers\<close>

subsection \<open>\<^verbatim>\<open>GET /api/properties\<close> (lines 77-85)\<close>

definition get_properties :: "'n env \<Rightarrow> 'n world \<Rightarrow> 'n response \<times> 'n world" where
  "get_properties env w =
     (case select_all env w of
        ((data, Some m), w') \<Rightarrow> (json 500 (Error m), w')
      | ((data, None), w') \<Rightarrow> (json 200 (Records data), w'))"

subsection \<open>\<^verbatim>\<open>POST /api/properties\<close> (lines 104-163)\<close>

text \<open>
  The text fields of the request body are a function from field names to values, absent
  fields being \<open>None\<close>.  \<^verbatim>\<open>v ? parse(v) : null\<close> is \<open>or_null\<close>.
\<close>

definition or_null :: "(string \<Rightarrow> 'n) \<Rightarrow> string option \<Rightarrow> 'n jsval" where
  "or_null parse v =
     (if truthy v then (case v of Some s \<Rightarrow> Num (parse s) | None \<Rightarrow> Null) else Null)"

definition text_field :: "string option \<Rightarrow> 'n jsval" where
  "text_field v = (case v of None \<Rightarrow> Undefined | Some s \<Rightarrow> Str s)"

definition newProperty ::
  "'n env \<Rightarrow> string \<Rightarrow> (string \<Rightarrow> string option) \<Rightarrow> string \<Rightarrow> 'n new_property" where
  "newProperty env userId form imageUrl =
     \<lparr>user_id = userId,
      title = text_field (form ''title''),
      price = or_null (parseInt env) (form ''price''),
      image_url = imageUrl,
      lat = or_null (parseFloat env) (form ''lat''),
      lng = or_null (parseFloat env) (form ''lng'')\<rparr>"

definition fileExt :: "file_t \<Rightarrow> string option" where
  "fileExt f = pop (js_split CHR ''.'' (originalname f))"

definition fileName :: "'n env \<Rightarrow> file_t \<Rightarrow> string" where
  "fileName env f = decimal (now env) @ ''.'' @ template (fileExt f)"

definition filePath :: "'n env \<Rightarrow> file_t \<Rightarrow> string" where
  "filePath env f = ''public/'' @ fileName env f"

text \<open>
  Lines 113-138: the image URL, or the response of the early return.  An exception of the
  upload reaches the \<^verbatim>\<open>catch\<close> of line 159.
\<close>

definition upload_image ::
  "'n env \<Rightarrow> file_t option \<Rightarrow> 'n world \<Rightarrow> ('n response + string) \<times> 'n world" where
  "upload_image env file w =
     (case file of
        None \<Rightarrow> (Inr [], w)
      | Some f \<Rightarrow>
          (case storage_upload env (filePath env f) f w of
             (Upload_throws m, w') \<Rightarrow> (Inl (json 500 (Error m)), w')
           | (Upload_returns (Some m), w') \<Rightarrow>
               (Inl (json 500 (Error (''Image upload failed: '' @ m))), w')
           | (Upload_returns None, w') \<Rightarrow> (Inr (getPublicUrl env (filePath env f)), w')))"

definition post_properties ::
  "'n env \<Rightarrow> user \<Rightarrow> (string \<Rightarrow> string option) \<Rightarrow> file_t option \<Rightarrow> 'n world
     \<Rightarrow> 'n response \<times> 'n world" where
  "post_properties env usr form file w =
     (case upload_image env file w of
        (Inl r, w') \<Rightarrow> (r, w')
      | (Inr imageUrl, w') \<Rightarrow>
          (case insert_row env (newProperty env (id_u usr) form imageUrl) w' of
             ((data, Some m), w'') \<Rightarrow> (json 500 (Error m), w'')
           | ((data, None), w'') \<Rightarrow> (json 200 (Added (at data 0)), w'')))"

subsection \<open>\<^verbatim>\<open>GET /api/properties/:id\<close> (lines 166-175)\<close>

definition get_property :: "'n env \<Rightarrow> string \<Rightarrow> 'n world \<Rightarrow> 'n response \<times> 'n world" where
  "get_property env i w =
     (case select_single env ''*'' i w of
        ((data, Some m), w') \<Rightarrow> (json 404 (Error ''Property not found''), w')
      | ((None, None), w') \<Rightarrow> (json 200 Json_null, w')
      | ((Some r, None), w') \<Rightarrow> (json 200 (Record r), w'))"

subsection \<open>\<^verbatim>\<open>PUT /api/properties/:id\<close> (lines 178-191)\<close>

text \<open>The JSON body gives \<^verbatim>\<open>title\<close> and \<^verbatim>\<open>price\<close>, \<open>Undefined\<close> when the key is absent.\<close>

definition put_property ::
  "'n env \<Rightarrow> string \<Rightarrow> 'n jsval \<Rightarrow> 'n jsval \<Rightarrow> 'n world \<Rightarrow> 'n response \<times> 'n world" where
  "put_property env i t p w =
     (case update_rows env t p i w of
        ((data, Some m), w') \<Rightarrow> (json 500 (Error (''ERROR::::'' @ m)), w')
      | ((data, None), w') \<Rightarrow>
          (case at data 0 of
             None \<Rightarrow> (json 200 Nothing, w')
           | Some r \<Rightarrow> (json 200 (Record r), w')))"

subsection \<open>\<^verbatim>\<open>DELETE /api/properties/:id\<close> (lines 193-220)\<close>

definition delete_property :: "'n env \<Rightarrow> user \<Rightarrow> string \<Rightarrow> 'n world \<Rightarrow> 'n response \<times> 'n world" where
  "delete_property env usr i w =
     (case select_single env ''user_id'' i w of
        ((existing, Some m), w') \<Rightarrow> (json 404 (Error ''Property not found''), w')
      | ((None, None), w') \<Rightarrow> (json 404 (Error ''Property not found''), w')
      | ((Some existing, None), w') \<Rightarrow>
          if user_id existing \<noteq> id_u usr
          then (json 403 (Error ''Not authorized to delete this property''), w')
          else
            (case delete_rows env i w' of
               (Some m, w'') \<Rightarrow> (json 500 (Error m), w'')
             | (None, w'') \<Rightarrow> (json 200 (Message ''Property deleted''), w'')))"

subsection \<open>The guarded routes\<close>

text \<open>
  \<^verbatim>\<open>app.post\<close>, \<^verbatim>\<open>app.put\<close> and \<^verbatim>\<open>app.delete\<close> put \<open>authenticate\<close> in front of the handler: the
  handler runs only when the guard calls \<^verbatim>\<open>next()\<close>.  A route starts here at the guard: the
  request has passed the CORS filter and the JSON body parser, and on the create route
  multer has decoded the form between the guard and the handler.
\<close>

definition guarded ::
  "'n env \<Rightarrow> string option \<Rightarrow> (user \<Rightarrow> 'n world \<Rightarrow> 'n response \<times> 'n world) \<Rightarrow> 'n world
     \<Rightarrow> 'n response \<times> 'n world" where
  "guarded env authorization handler w =
     (case authenticate env authorization w of
        (Inl r, w') \<Rightarrow> (r, w')
      | (Inr usr, w') \<Rightarrow> handler usr w')"

definition route_post ::
  "'n env \<Rightarrow> string option \<Rightarrow> (string \<Rightarrow> string option) \<Rightarrow> file_t option \<Rightarrow> 'n world
     \<Rightarrow> 'n response \<times> 'n world" where
  "route_post env authorization form file =
     guarded env authorization (\<lambda>usr. post_properties env usr form file)"

definition route_put ::
  "'n env \<Rightarrow> string option \<Rightarrow> string \<Rightarrow> 'n jsval \<Rightarrow> 'n jsval \<Rightarrow> 'n world
     \<Rightarrow> 'n response \<times> 'n world" where
  "route_put env authorization i t p =
     guarded env authorization (\<lambda>usr. put_property env i t p)"

definition route_delete ::
  "'n env \<Rightarrow> string option \<Rightarrow> string \<Rightarrow> 'n world \<Rightarrow> 'n response \<times> 'n world" where
  "route_delete env authorization i =
     guarded env authorization (\<lambda>usr. delete_property env usr i)"


section \<open>The wording of the specification\<close>

text \<open>
  Section 4.2 of the specification asks for a header "of the form \<^verbatim>\<open>Bearer <token>\<close>"; a
  header that is not of that form is malformed.  This predicate follows those words, not
  the code.
\<close>

definition bearer_form :: "string \<Rightarrow> bool" where
  "bearer_form h = (take 7 h = ''Bearer '' \<and> drop 7 h \<noteq> [])"

text \<open>
  The tokens of a header that whitespace separates: the maximal runs of characters none
  of which is a space, a tab, a line feed, a vertical tab, a form feed or a carriage
  return.  This too follows the words ("the second whitespace-separated token"), not the
  code.
\<close>

definition whitespace :: "char \<Rightarrow> bool" where
  "whitespace c = (c \<in> set [CHR '' '', CHR 0x09, CHR 0x0A, CHR 0x0B, CHR 0x0C, CHR 0x0D])"

fun runs :: "string \<Rightarrow> string \<Rightarrow> string list" where
  "runs acc [] = (if acc = [] then [] else [rev acc])"
| "runs acc (c # cs) =
     (if whitespace c then (if acc = [] then runs [] cs else rev acc # runs [] cs)
      else runs (c # acc) cs)"

definition second_token :: "string \<Rightarrow> string option" where
  "second_token h = at (runs [] h) 1"

section \<open>A sample deployment\<close>

text \<open>
  Two users and their tokens, a table of two rows, and a service that answers every call.
  Numbers are stood for by the text they are parsed from.
\<close>

definition alice :: user where
  "alice = \<lparr>id_u = ''alice''\<rparr>"

definition bob :: user where
  "bob = \<lparr>id_u = ''bob''\<rparr>"

definition sample_getUser :: "string option \<Rightarrow> auth_reply" where
  "sample_getUser token =
     (if token = Some ''tok-alice'' then Auth_returns (Some alice) None
      else if token = Some ''tok-bob'' then Auth_returns (Some bob) None
      else Auth_returns None (Some ''invalid JWT''))"

definition sample_env :: "string env" where
  "sample_env =
     \<lparr>parseInt = (\<lambda>s. s), parseFloat = (\<lambda>s. s), now = 1700000000000,
      getUser = sample_getUser,
      upload = (\<lambda>path f. Upload_returns None),
      public_base = ''https://storage.example/property-images/'',
      db_error = (\<lambda>c. None),
      new_id = ''3''\<rparr>"

definition house :: "string property" where
  "house = \<lparr>user_id = ''alice'', title = Str ''Lake House'', price = Num ''250000'',
            image_url = [], lat = Num ''47.6'', lng = Num ''-122.3'', id_p = ''1''\<rparr>"

definition flat :: "string property" where
  "flat = \<lparr>user_id = ''bob'', title = Str ''Flat'', price = Null,
           image_url = ''https://storage.example/property-images/public/1.png'',
           lat = Null, lng = Null, id_p = ''2''\<rparr>"

definition sample_world :: "string world" where
  "sample_world = \<lparr>properties = [house, flat], objects = [], calls = []\<rparr>"

definition lake_house_form :: "string \<Rightarrow> string option" where
  "lake_house_form k =
     (if k = ''title'' then Some ''Lake House''
      else if k = ''price'' then Some ''250000''
      else if k = ''lat'' then Some ''47.6''
      else if k = ''lng'' then Some ''-122.3''
      else if k = ''user_id'' then Some ''bob''
      else None)"

definition photo :: file_t where
  "photo = \<lparr>originalname = ''front.view.jpg'', mimetype = ''image/jpeg'', buffer = ''JFIF''\<rparr>"

definition scan :: file_t where
  "scan = \<lparr>originalname = ''scan'', mimetype = ''image/png'', buffer = ''PNG''\<rparr>"


section \<open>Properties of the external service model\<close>

lemmas sample_defs = sample_env_def sample_world_def sample_getUser_def alice_def bob_def
  house_def flat_def lake_house_form_def photo_def

lemma issue_simps [simp]:
  "properties (issue c w) = properties w" "objects (issue c w) = objects w"
  "calls (issue c w) = calls w @ [c]"
  by (simp_all add: issue_def)

lemma select_single_world [simp]:
  "snd (select_single env c i w) = issue (Select_single c i) w"
  by (simp add: select_single_def split: option.splits)

lemma select_single_error:
  assumes "length (matching i (properties w)) \<noteq> 1"
  shows "\<exists>m. fst (select_single env c i w) = (None, Some m)"
  using assms by (auto simp: select_single_def single_def split: option.splits list.splits)

lemma select_single_found:
  assumes "matching i (properties w) = [r]" and "db_error env (Select_single c i) = None"
  shows "fst (select_single env c i w) = (Some r, None)"
  using assms by (simp add: select_single_def single_def)

lemma select_single_sound:
  assumes "fst (select_single env c i w) = (Some r, e)"
  shows "matching i (properties w) = [r] \<and> e = None"
  using assms by (auto simp: select_single_def single_def split: option.splits list.splits)

lemma delete_rows_world:
  "snd (delete_rows env i w) =
     (case db_error env (Delete i) of
        Some m \<Rightarrow> issue (Delete i) w
      | None \<Rightarrow> issue (Delete i) (w\<lparr>properties := filter (\<lambda>r. id_p r \<noteq> i) (properties w)\<rparr>))"
  by (simp add: delete_rows_def split: option.splits)

lemma matching_patched:
  "matching i (map (\<lambda>r. if id_p r = i then patch t p r else r) rows) = map (patch t p) (matching i rows)"
  by (induction rows) (auto simp: matching_def patch_def)

lemma unmatched_unchanged:
  assumes "matching i rows = []"
  shows "map (\<lambda>r. if id_p r = i then f r else r) rows = rows"
  using assms by (induction rows) (auto simp: matching_def split: if_splits)

lemma update_rows_world:
  "snd (update_rows env t p i w) =
     (case db_error env (Update t p i) of
        Some m \<Rightarrow> issue (Update t p i) w
      | None \<Rightarrow> issue (Update t p i)
          (w\<lparr>properties := map (\<lambda>r. if id_p r = i then patch t p r else r) (properties w)\<rparr>))"
  by (simp add: update_rows_def Let_def split: option.splits)

lemma put_property_world:
  "snd (put_property env i t p w) = snd (update_rows env t p i w)"
  by (cases "update_rows env t p i w")
    (auto simp: put_property_def split: option.splits)

section \<open>Fetching one property\<close>

text \<open>
  C2.  \<^verbatim>\<open>GET /api/properties/:id\<close> answers 404 with \<^verbatim>\<open>{error: "Property not found"}\<close>
  whenever the identifier matches no row or more than one row.  When it matches exactly one
  row, and the data service answers the query, the response is that row with status 200.
  The status is never 500, the body is never an array of rows, and the table is left as it
  was.
\<close>

theorem get_property_single_or_404:
  "(length (matching i (properties w)) \<noteq> 1 \<longrightarrow>
      fst (get_property env i w) = json 404 (Error ''Property not found''))
   \<and> (matching i (properties w) = [r] \<and> db_error env (Select_single ''*'' i) = None \<longrightarrow>
      fst (get_property env i w) = json 200 (Record r))
   \<and> status (fst (get_property env i w)) \<noteq> 500
   \<and> (\<forall>rows. body (fst (get_property env i w)) \<noteq> Records rows)
   \<and> properties (snd (get_property env i w)) = properties w"
proof (intro conjI impI allI)
  assume "length (matching i (properties w)) \<noteq> 1"
  from select_single_error [OF this, of env "''*''"]
  obtain m where "fst (select_single env ''*'' i w) = (None, Some m)" ..
  then show "fst (get_property env i w) = json 404 (Error ''Property not found'')"
    by (cases "select_single env ''*'' i w") (simp add: get_property_def)
next
  assume "matching i (properties w) = [r] \<and> db_error env (Select_single ''*'' i) = None"
  then have "fst (select_single env ''*'' i w) = (Some r, None)"
    by (simp add: select_single_found)
  then show "fst (get_property env i w) = json 200 (Record r)"
    by (cases "select_single env ''*'' i w") (simp add: get_property_def)
next
  show "status (fst (get_property env i w)) \<noteq> 500"
    by (simp add: get_property_def json_def split: prod.splits option.splits)
next
  fix rows
  show "body (fst (get_property env i w)) \<noteq> Records rows"
    by (simp add: get_property_def json_def split: prod.splits option.splits)
next
  have "snd (get_property env i w) = snd (select_single env ''*'' i w)"
    by (cases "select_single env ''*'' i w")
      (auto simp: get_property_def split: option.splits)
  then show "properties (snd (get_property env i w)) = properties w"
    by simp
qed

theorem get_property_single_or_404_witness:
  "fst (get_property sample_env ''9'' sample_world) = json 404 (Error ''Property not found'')
   \<and> fst (get_property sample_env ''1'' (sample_world\<lparr>properties := [house, flat, house]\<rparr>))
       = json 404 (Error ''Property not found'')
   \<and> fst (get_property sample_env ''1'' sample_world) = json 200 (Record house)"
proof -
  have none: "length (matching ''9'' (properties sample_world)) \<noteq> 1"
    by (simp add: matching_def sample_defs)
  have two:
    "length (matching ''1'' (properties (sample_world\<lparr>properties := [house, flat, house]\<rparr>))) \<noteq> 1"
    by (simp add: matching_def sample_defs)
  have one: "matching ''1'' (properties sample_world) = [house]
      \<and> db_error sample_env (Select_single ''*'' ''1'') = None"
    by (simp add: matching_def sample_defs)
  show ?thesis
    using get_property_single_or_404 [where i = "''9''" and w = sample_world and env = sample_env] none
      get_property_single_or_404 [where i = "''1''" and env = sample_env
        and w = "sample_world\<lparr>properties := [house, flat, house]\<rparr>"] two
      get_property_single_or_404 [where i = "''1''" and w = sample_world and env = sample_env
        and r = house] one
    by blast
qed


section \<open>Deleting a property\<close>

text \<open>
  C1.  \<^verbatim>\<open>DELETE /api/properties/:id\<close> for the authenticated user \<open>usr\<close>.  If no row has the
  identifier, the response is 404 and the only call made is the lookup: the world is the
  one before with that call recorded, so no deletion is issued.  If the lookup finds the
  row and its owner is not \<open>usr\<close>, the response is 403 and again only the lookup is made:
  the row is intact.  Unless exactly one row has the identifier and \<open>usr\<close> owns it, nothing
  but the lookup happens.  When the row is found, \<open>usr\<close> owns it and the deletion
  succeeds, the response is the message \<^verbatim>\<open>Property deleted\<close> (not the row), the rows with
  that identifier are gone, and the calls are the lookup followed by the deletion.
\<close>

theorem delete_property_owner_only:
  "(matching i (properties w) = [] \<longrightarrow>
      delete_property env usr i w =
        (json 404 (Error ''Property not found''), issue (Select_single ''user_id'' i) w))
   \<and> (matching i (properties w) = [r] \<and> db_error env (Select_single ''user_id'' i) = None
        \<and> user_id r \<noteq> id_u usr \<longrightarrow>
      delete_property env usr i w =
        (json 403 (Error ''Not authorized to delete this property''),
         issue (Select_single ''user_id'' i) w))
   \<and> ((\<exists>r'. matching i (properties w) = [r'] \<and> user_id r' = id_u usr)
        \<or> snd (delete_property env usr i w) = issue (Select_single ''user_id'' i) w)
   \<and> (matching i (properties w) = [r] \<and> db_error env (Select_single ''user_id'' i) = None
        \<and> user_id r = id_u usr \<and> db_error env (Delete i) = None \<longrightarrow>
      fst (delete_property env usr i w) = json 200 (Message ''Property deleted'')
      \<and> properties (snd (delete_property env usr i w)) = filter (\<lambda>r. id_p r \<noteq> i) (properties w)
      \<and> calls (snd (delete_property env usr i w))
          = calls w @ [Select_single ''user_id'' i, Delete i])"
proof -
  obtain d e w1 where sel: "select_single env ''user_id'' i w = ((d, e), w1)"
    by (metis surj_pair)
  have w1: "w1 = issue (Select_single ''user_id'' i) w"
    using select_single_world [of env "''user_id''" i w] sel by simp
  have a: "delete_property env usr i w =
        (json 404 (Error ''Property not found''), issue (Select_single ''user_id'' i) w)"
    if "matching i (properties w) = []"
  proof -
    from that have "length (matching i (properties w)) \<noteq> 1" by simp
    from select_single_error [OF this, of env "''user_id''"] sel
    obtain m where "d = None" "e = Some m" by auto
    with sel w1 show ?thesis by (simp add: delete_property_def)
  qed
  have found: "d = Some r \<and> e = None"
    if "matching i (properties w) = [r]" "db_error env (Select_single ''user_id'' i) = None"
    using select_single_found [OF that] sel by simp
  have b: "delete_property env usr i w =
        (json 403 (Error ''Not authorized to delete this property''),
         issue (Select_single ''user_id'' i) w)"
    if "matching i (properties w) = [r]" "db_error env (Select_single ''user_id'' i) = None"
      "user_id r \<noteq> id_u usr"
    using found [OF that(1,2)] that(3) sel w1 by (simp add: delete_property_def)
  have c: "(\<exists>r'. matching i (properties w) = [r'] \<and> user_id r' = id_u usr)
        \<or> snd (delete_property env usr i w) = issue (Select_single ''user_id'' i) w"
  proof (cases d)
    case None
    with sel w1 show ?thesis by (simp add: delete_property_def split: option.splits)
  next
    case (Some x)
    with sel have "fst (select_single env ''user_id'' i w) = (Some x, e)" by simp
    from select_single_sound [OF this] have m: "matching i (properties w) = [x]" and e: "e = None"
      by simp_all
    show ?thesis
    proof (cases "user_id x = id_u usr")
      case True
      with m show ?thesis by blast
    next
      case False
      with sel w1 Some e show ?thesis by (simp add: delete_property_def)
    qed
  qed
  have d: "fst (delete_property env usr i w) = json 200 (Message ''Property deleted'')
      \<and> properties (snd (delete_property env usr i w)) = filter (\<lambda>r. id_p r \<noteq> i) (properties w)
      \<and> calls (snd (delete_property env usr i w))
          = calls w @ [Select_single ''user_id'' i, Delete i]"
    if "matching i (properties w) = [r]" "db_error env (Select_single ''user_id'' i) = None"
      "user_id r = id_u usr" "db_error env (Delete i) = None"
    using found [OF that(1,2)] that(3,4) sel w1
    by (simp add: delete_property_def delete_rows_def)
  from a b c d show ?thesis by blast
qed

theorem delete_property_owner_only_witness:
  "delete_property sample_env alice ''9'' sample_world =
      (json 404 (Error ''Property not found''), issue (Select_single ''user_id'' ''9'') sample_world)
   \<and> delete_property sample_env bob ''1'' sample_world =
      (json 403 (Error ''Not authorized to delete this property''),
       issue (Select_single ''user_id'' ''1'') sample_world)
   \<and> fst (delete_property sample_env alice ''1'' sample_world) = json 200 (Message ''Property deleted'')
   \<and> properties (snd (delete_property sample_env alice ''1'' sample_world)) = [flat]
   \<and> calls (snd (delete_property sample_env alice ''1'' sample_world))
        = [Select_single ''user_id'' ''1'', Delete ''1'']"
proof -
  have none: "matching ''9'' (properties sample_world) = []"
    by (simp add: matching_def sample_defs)
  have other: "matching ''1'' (properties sample_world) = [house]
      \<and> db_error sample_env (Select_single ''user_id'' ''1'') = None \<and> user_id house \<noteq> id_u bob"
    by (simp add: matching_def sample_defs)
  have own: "matching ''1'' (properties sample_world) = [house]
      \<and> db_error sample_env (Select_single ''user_id'' ''1'') = None
      \<and> user_id house = id_u alice \<and> db_error sample_env (Delete ''1'') = None"
    by (simp add: matching_def sample_defs)
  have rest: "filter (\<lambda>r. id_p r \<noteq> ''1'') (properties sample_world) = [flat]"
    "calls sample_world = []"
    by (simp_all add: sample_defs)
  show ?thesis
    using delete_property_owner_only [where i = "''9''" and w = sample_world and env = sample_env
        and usr = alice] none
      delete_property_owner_only [where i = "''1''" and w = sample_world and env = sample_env
        and usr = bob and r = house] other
      delete_property_owner_only [where i = "''1''" and w = sample_world and env = sample_env
        and usr = alice and r = house] own rest
    by simp
qed

section \<open>Updating a property\<close>

text \<open>
  C9.  \<^verbatim>\<open>PUT /api/properties/:id\<close> with an identifier that matches no row, the update call
  returning no error: the response has status 200 and an empty body (the first element of
  an empty array), and the table is unchanged.  The handler never answers 404.
\<close>

theorem put_property_unmatched_empty_200:
  "(matching i (properties w) = [] \<and> db_error env (Update t p i) = None \<longrightarrow>
      fst (put_property env i t p w) = json 200 Nothing
      \<and> properties (snd (put_property env i t p w)) = properties w)
   \<and> status (fst (put_property env i t p w)) \<noteq> 404"
proof (intro conjI impI)
  assume h: "matching i (properties w) = [] \<and> db_error env (Update t p i) = None"
  then show "fst (put_property env i t p w) = json 200 Nothing"
    by (simp add: put_property_def update_rows_def matching_patched at_def)
  from h show "properties (snd (put_property env i t p w)) = properties w"
    by (simp add: put_property_def update_rows_def matching_patched at_def unmatched_unchanged)
next
  show "status (fst (put_property env i t p w)) \<noteq> 404"
    by (simp add: put_property_def json_def split: prod.splits option.splits)
qed

theorem put_property_unmatched_empty_200_witness:
  "fst (put_property sample_env ''9'' (Str ''Cabin'') (Num ''1'') sample_world) = json 200 Nothing"
proof -
  have "matching ''9'' (properties sample_world) = []
      \<and> db_error sample_env (Update (Str ''Cabin'') (Num ''1'') ''9'') = None"
    by (simp add: matching_def sample_defs)
  with put_property_unmatched_empty_200 [where i = "''9''" and w = sample_world and env = sample_env
        and t = "Str ''Cabin''" and p = "Num ''1''"]
  show ?thesis by simp
qed


lemma authenticate_accepts:
  assumes "h \<noteq> []" and "getUser env (token_of h) = Auth_returns (Some usr) None"
  shows "authenticate env (Some h) w = (Inr usr, issue (Get_user (token_of h)) w)"
  using assms by (simp add: authenticate_def auth_getUser_def)

text \<open>
  C7.  \<^verbatim>\<open>PUT /api/properties/:id\<close> changes nothing but the title and the price of the rows
  whose identifier matches: the table keeps its length, every row keeps its identifier,
  owner, image URL, latitude and longitude, and a row with another identifier is the same
  row afterwards.  When the update call succeeds, each matching row has its title and price
  replaced by the values of the request body (a key the body leaves out is not sent and
  the column keeps its value).  The handler makes the update call and no other, and the
  route hands every authenticated request to it whoever the user is: no ownership check
  precedes the mutation.
\<close>

theorem put_property_title_price_only:
  "length (properties (snd (put_property env i t p w))) = length (properties w)
   \<and> (\<forall>k < length (properties w).
        id_p (properties (snd (put_property env i t p w)) ! k) = id_p (properties w ! k)
      \<and> user_id (properties (snd (put_property env i t p w)) ! k) = user_id (properties w ! k)
      \<and> image_url (properties (snd (put_property env i t p w)) ! k) = image_url (properties w ! k)
      \<and> lat (properties (snd (put_property env i t p w)) ! k) = lat (properties w ! k)
      \<and> lng (properties (snd (put_property env i t p w)) ! k) = lng (properties w ! k)
      \<and> (id_p (properties w ! k) \<noteq> i \<longrightarrow>
           properties (snd (put_property env i t p w)) ! k = properties w ! k))
   \<and> (db_error env (Update t p i) = None \<longrightarrow>
        properties (snd (put_property env i t p w)) =
          map (\<lambda>r. if id_p r = i
                    then r\<lparr>title := (if t = Undefined then title r else t),
                           price := (if p = Undefined then price r else p)\<rparr>
                    else r) (properties w))
   \<and> calls (snd (put_property env i t p w)) = calls w @ [Update t p i]
   \<and> (h \<noteq> [] \<and> getUser env (token_of h) = Auth_returns (Some usr) None \<longrightarrow>
        route_put env (Some h) i t p w = put_property env i t p (issue (Get_user (token_of h)) w))"
proof (intro conjI allI impI)
  show "length (properties (snd (put_property env i t p w))) = length (properties w)"
    by (simp add: put_property_world update_rows_world split: option.splits)
next
  fix k assume "k < length (properties w)"
  then show "id_p (properties (snd (put_property env i t p w)) ! k) = id_p (properties w ! k)"
    and "user_id (properties (snd (put_property env i t p w)) ! k) = user_id (properties w ! k)"
    and "image_url (properties (snd (put_property env i t p w)) ! k) = image_url (properties w ! k)"
    and "lat (properties (snd (put_property env i t p w)) ! k) = lat (properties w ! k)"
    and "lng (properties (snd (put_property env i t p w)) ! k) = lng (properties w ! k)"
    by (simp_all add: put_property_world update_rows_world patch_def split: option.splits)
next
  fix k assume "k < length (properties w)" "id_p (properties w ! k) \<noteq> i"
  then show "properties (snd (put_property env i t p w)) ! k = properties w ! k"
    by (simp add: put_property_world update_rows_world split: option.splits)
next
  assume "db_error env (Update t p i) = None"
  then show "properties (snd (put_property env i t p w)) =
          map (\<lambda>r. if id_p r = i
                    then r\<lparr>title := (if t = Undefined then title r else t),
                           price := (if p = Undefined then price r else p)\<rparr>
                    else r) (properties w)"
    by (simp add: put_property_world update_rows_world patch_def)
next
  show "calls (snd (put_property env i t p w)) = calls w @ [Update t p i]"
    by (simp add: put_property_world update_rows_world split: option.splits)
next
  assume "h \<noteq> [] \<and> getUser env (token_of h) = Auth_returns (Some usr) None"
  then show "route_put env (Some h) i t p w = put_property env i t p (issue (Get_user (token_of h)) w)"
    by (simp add: route_put_def guarded_def authenticate_accepts)
qed

theorem put_property_title_price_only_witness:
  "properties (snd (route_put sample_env (Some ''Bearer tok-bob'') ''1'' (Str ''Cabin'') Undefined
       sample_world))
     = [house\<lparr>title := Str ''Cabin''\<rparr>, flat]
   \<and> user_id house \<noteq> id_u bob"
proof -
  let ?w = "issue (Get_user (token_of ''Bearer tok-bob'')) sample_world"
  let ?t = "Str ''Cabin'' :: string jsval" and ?p = "Undefined :: string jsval"
  have tok: "token_of ''Bearer tok-bob'' = Some ''tok-bob''"
    by (simp add: token_of_def at_def)
  have auth: "''Bearer tok-bob'' \<noteq> []
      \<and> getUser sample_env (token_of ''Bearer tok-bob'') = Auth_returns (Some bob) None"
    by (simp add: tok sample_env_def sample_getUser_def)
  have ok: "db_error sample_env (Update (Str ''Cabin'') Undefined ''1'') = None"
    by (simp add: sample_env_def)
  have other: "user_id house \<noteq> id_u bob"
    by (simp add: house_def bob_def)
  note put = put_property_title_price_only [where env = sample_env and h = "''Bearer tok-bob''"
      and usr = bob and i = "''1''" and t = "Str ''Cabin''" and p = Undefined]
  from put [where w = sample_world, THEN conjunct2, THEN conjunct2, THEN conjunct2, THEN conjunct2] auth
  have route: "route_put sample_env (Some ''Bearer tok-bob'') ''1'' (Str ''Cabin'') Undefined sample_world
      = put_property sample_env ''1'' (Str ''Cabin'') Undefined ?w"
    by (rule mp)
  from put [where w = ?w, THEN conjunct2, THEN conjunct2, THEN conjunct1] ok
  have "properties (snd (put_property sample_env ''1'' (Str ''Cabin'') Undefined ?w))
      = map (\<lambda>r. if id_p r = ''1''
                    then r\<lparr>title := (if ?t = Undefined then title r else ?t),
                           price := (if ?p = Undefined then price r else ?p)\<rparr>
                    else r) (properties ?w)"
    by (rule mp)
  also have "\<dots> = [house\<lparr>title := Str ''Cabin''\<rparr>, flat]"
    by (simp add: sample_world_def house_def flat_def)
  finally show ?thesis
    using route other by simp
qed


section \<open>The authentication guard: properties\<close>

subsection \<open>Splitting\<close>

lemma js_split_not_Nil [simp]: "js_split c s \<noteq> []"
  by (induction s) (auto split: list.splits)

lemma js_split_no_separator: "c \<notin> set s \<Longrightarrow> js_split c s = [s]"
  by (induction s) auto

lemma token_of_no_space: "CHR '' '' \<notin> set h \<Longrightarrow> token_of h = None"
  by (simp add: token_of_def at_def js_split_no_separator)

subsection \<open>The guard\<close>

lemma resolved_Some_iff: "resolved r = Some usr \<longleftrightarrow> r = Auth_returns (Some usr) None"
  by (cases r rule: resolved.cases) auto

lemma authenticate_world:
  "snd (authenticate env a w) =
     (case a of None \<Rightarrow> w | Some h \<Rightarrow> if h = [] then w else issue (Get_user (token_of h)) w)"
  by (simp add: authenticate_def auth_getUser_def split: option.splits auth_reply.splits)

lemma authenticate_rejects:
  assumes "a = None \<or> a = Some [] \<or> (\<exists>h. a = Some h \<and> resolved (getUser env (token_of h)) = None)"
  shows "\<exists>msg. fst (authenticate env a w) = Inl (json 401 (Error msg))"
proof (cases a)
  case None
  then show ?thesis by (auto simp add: authenticate_def)
next
  case (Some h)
  show ?thesis
  proof (cases "h = []")
    case True
    with Some show ?thesis by (auto simp add: authenticate_def)
  next
    case False
    with Some assms have "resolved (getUser env (token_of h)) = None" by simp
    with Some False show ?thesis
      by (cases "getUser env (token_of h)" rule: resolved.cases)
        (auto simp add: authenticate_def auth_getUser_def split: option.splits)
  qed
qed

lemma guarded_rejects:
  assumes "a = None \<or> a = Some [] \<or> (\<exists>h. a = Some h \<and> resolved (getUser env (token_of h)) = None)"
  shows "\<exists>msg w'. guarded env a handler w = (json 401 (Error msg), w')
           \<and> properties w' = properties w \<and> objects w' = objects w
           \<and> (calls w' = calls w \<or> (\<exists>token. calls w' = calls w @ [Get_user token]))"
proof -
  from authenticate_rejects [OF assms, of w]
  obtain msg where r: "fst (authenticate env a w) = Inl (json 401 (Error msg))" ..
  let ?w = "snd (authenticate env a w)"
  have g: "guarded env a handler w = (json 401 (Error msg), ?w)"
    using r by (cases "authenticate env a w") (simp add: guarded_def)
  have "properties ?w = properties w" "objects ?w = objects w"
    "calls ?w = calls w \<or> (\<exists>token. calls ?w = calls w @ [Get_user token])"
    by (simp_all add: authenticate_world split: option.splits)
  with g show ?thesis by blast
qed

lemma guarded_accepts:
  assumes "h \<noteq> []" and "resolved (getUser env (token_of h)) = Some usr"
  shows "guarded env (Some h) handler w = handler usr (issue (Get_user (token_of h)) w)"
  using assms by (simp add: guarded_def authenticate_accepts resolved_Some_iff)

subsection \<open>Rejection comes before the handler\<close>

text \<open>
  C3, as the code has it.  On the three guarded routes (create, update, delete) the
  response is 401 whenever the \<^verbatim>\<open>Authorization\<close> header is missing or empty, or the token
  taken from it does not resolve to a user: the auth service answers an error or no user,
  or the call throws.  Then the handler does not run: the table and the stored objects are
  as before, and at most the call to the auth service has been added to the calls, so no
  mutating call is made.  When the token resolves to a user, the route is the handler run
  with that user as \<^verbatim>\<open>req.user\<close>.  The guard looks at nothing else in the header: a header
  that is not of the form \<^verbatim>\<open>Bearer <token>\<close> is accepted when its token resolves.
\<close>

theorem guard_401_before_handler:
  "(a = None \<or> a = Some [] \<or> (\<exists>h. a = Some h \<and> resolved (getUser env (token_of h)) = None) \<longrightarrow>
      (\<exists>msg w'. route_post env a form img w = (json 401 (Error msg), w')
           \<and> properties w' = properties w \<and> objects w' = objects w
           \<and> (calls w' = calls w \<or> (\<exists>token. calls w' = calls w @ [Get_user token])))
    \<and> (\<exists>msg w'. route_put env a i t p w = (json 401 (Error msg), w')
           \<and> properties w' = properties w \<and> objects w' = objects w
           \<and> (calls w' = calls w \<or> (\<exists>token. calls w' = calls w @ [Get_user token])))
    \<and> (\<exists>msg w'. route_delete env a i w = (json 401 (Error msg), w')
           \<and> properties w' = properties w \<and> objects w' = objects w
           \<and> (calls w' = calls w \<or> (\<exists>token. calls w' = calls w @ [Get_user token]))))
   \<and> (a = Some h \<and> h \<noteq> [] \<and> resolved (getUser env (token_of h)) = Some usr \<longrightarrow>
      route_post env a form img w = post_properties env usr form img (issue (Get_user (token_of h)) w)
    \<and> route_put env a i t p w = put_property env i t p (issue (Get_user (token_of h)) w)
    \<and> route_delete env a i w = delete_property env usr i (issue (Get_user (token_of h)) w))"
proof (intro conjI impI)
  assume r: "a = None \<or> a = Some [] \<or> (\<exists>h. a = Some h \<and> resolved (getUser env (token_of h)) = None)"
  show "\<exists>msg w'. route_post env a form img w = (json 401 (Error msg), w')
           \<and> properties w' = properties w \<and> objects w' = objects w
           \<and> (calls w' = calls w \<or> (\<exists>token. calls w' = calls w @ [Get_user token]))"
    unfolding route_post_def by (rule guarded_rejects [OF r])
  show "\<exists>msg w'. route_put env a i t p w = (json 401 (Error msg), w')
           \<and> properties w' = properties w \<and> objects w' = objects w
           \<and> (calls w' = calls w \<or> (\<exists>token. calls w' = calls w @ [Get_user token]))"
    unfolding route_put_def by (rule guarded_rejects [OF r])
  show "\<exists>msg w'. route_delete env a i w = (json 401 (Error msg), w')
           \<and> properties w' = properties w \<and> objects w' = objects w
           \<and> (calls w' = calls w \<or> (\<exists>token. calls w' = calls w @ [Get_user token]))"
    unfolding route_delete_def by (rule guarded_rejects [OF r])
next
  assume ok: "a = Some h \<and> h \<noteq> [] \<and> resolved (getUser env (token_of h)) = Some usr"
  then show "route_post env a form img w
      = post_properties env usr form img (issue (Get_user (token_of h)) w)"
    by (simp add: route_post_def guarded_accepts)
  from ok show "route_put env a i t p w = put_property env i t p (issue (Get_user (token_of h)) w)"
    by (simp add: route_put_def guarded_accepts)
  from ok show "route_delete env a i w = delete_property env usr i (issue (Get_user (token_of h)) w)"
    by (simp add: route_delete_def guarded_accepts)
qed

theorem guard_401_before_handler_witness:
  "status (fst (route_delete sample_env None ''1'' sample_world)) = 401
   \<and> properties (snd (route_delete sample_env None ''1'' sample_world)) = properties sample_world
   \<and> status (fst (route_put sample_env (Some ''Bearer expired'') ''1'' (Str ''Cabin'') Undefined
        sample_world)) = 401
   \<and> properties (snd (route_put sample_env (Some ''Bearer expired'') ''1'' (Str ''Cabin'') Undefined
        sample_world)) = properties sample_world
   \<and> route_post sample_env (Some ''Bearer tok-alice'') lake_house_form None sample_world
       = post_properties sample_env alice lake_house_form None
           (issue (Get_user (token_of ''Bearer tok-alice'')) sample_world)"
proof -
  have missing: "(None :: string option) = None \<or> (None :: string option) = Some []
      \<or> (\<exists>h. None = Some h \<and> resolved (getUser sample_env (token_of h)) = None)"
    by simp
  have expired: "Some ''Bearer expired'' = None \<or> Some ''Bearer expired'' = Some []
      \<or> (\<exists>h. Some ''Bearer expired'' = Some h \<and> resolved (getUser sample_env (token_of h)) = None)"
    by (simp add: token_of_def at_def sample_env_def sample_getUser_def)
  have valid: "Some ''Bearer tok-alice'' = Some ''Bearer tok-alice'' \<and> ''Bearer tok-alice'' \<noteq> []
      \<and> resolved (getUser sample_env (token_of ''Bearer tok-alice'')) = Some alice"
    by (simp add: token_of_def at_def sample_env_def sample_getUser_def)
  from guard_401_before_handler [where env = sample_env and a = None and i = "''1''"
      and w = sample_world, THEN conjunct1, THEN mp, OF missing, THEN conjunct2, THEN conjunct2]
  have a: "status (fst (route_delete sample_env None ''1'' sample_world)) = 401
      \<and> properties (snd (route_delete sample_env None ''1'' sample_world)) = properties sample_world"
    by (auto simp: json_def)
  from guard_401_before_handler [where env = sample_env and a = "Some ''Bearer expired''"
      and i = "''1''" and t = "Str ''Cabin''" and p = Undefined
      and w = sample_world, THEN conjunct1, THEN mp, OF expired, THEN conjunct2, THEN conjunct1]
  have b: "status (fst (route_put sample_env (Some ''Bearer expired'') ''1'' (Str ''Cabin'') Undefined
        sample_world)) = 401
   \<and> properties (snd (route_put sample_env (Some ''Bearer expired'') ''1'' (Str ''Cabin'') Undefined
        sample_world)) = properties sample_world"
    by (auto simp: json_def)
  from guard_401_before_handler [where env = sample_env and a = "Some ''Bearer tok-alice''"
      and h = "''Bearer tok-alice''" and usr = alice and form = lake_house_form and img = None
      and w = sample_world, THEN conjunct2, THEN mp, OF valid, THEN conjunct1]
  have c: "route_post sample_env (Some ''Bearer tok-alice'') lake_house_form None sample_world
       = post_properties sample_env alice lake_house_form None
           (issue (Get_user (token_of ''Bearer tok-alice'')) sample_world)" .
  from a b c show ?thesis by simp
qed

text \<open>
  C3 as stated fails: \<^verbatim>\<open>Basic tok-alice\<close> is not of the form \<^verbatim>\<open>Bearer <token>\<close>, yet the
  delete route accepts it, answers 200 and removes the row.
\<close>

theorem malformed_header_accepted:
  "\<not> bearer_form ''Basic tok-alice''
   \<and> fst (route_delete sample_env (Some ''Basic tok-alice'') ''1'' sample_world)
       = json 200 (Message ''Property deleted'')
   \<and> properties (snd (route_delete sample_env (Some ''Basic tok-alice'') ''1'' sample_world)) = [flat]
   \<and> calls (snd (route_delete sample_env (Some ''Basic tok-alice'') ''1'' sample_world))
       = [Get_user (Some ''tok-alice''), Select_single ''user_id'' ''1'', Delete ''1'']"
  by (simp add: bearer_form_def route_delete_def guarded_def authenticate_def auth_getUser_def
      token_of_def at_def delete_property_def select_single_def single_def matching_def
      delete_rows_def json_def issue_def sample_defs)

subsection \<open>The token that is sent\<close>

text \<open>
  C10, as the code has it.  For a non-empty header the guard sends to the auth service
  exactly the second element of the header split at every space character (U+0020), and
  does not look at the first element: whenever that second element resolves to a user the
  request is accepted, whatever the scheme word.  A header without a space character has
  no second element: the token sent is \<^verbatim>\<open>undefined\<close>, and the response is 401 when the auth
  service resolves no user for it.  Two spaces in a row give the empty string as second
  element, and a tab does not separate.
\<close>

theorem guard_sends_second_field:
  "h \<noteq> [] \<longrightarrow>
     snd (authenticate env (Some h) w) = issue (Get_user (at (js_split CHR '' '' h) 1)) w
   \<and> (resolved (getUser env (at (js_split CHR '' '' h) 1)) = Some usr \<longrightarrow>
        fst (authenticate env (Some h) w) = Inr usr)
   \<and> (CHR '' '' \<notin> set h \<longrightarrow>
        at (js_split CHR '' '' h) 1 = None
      \<and> (resolved (getUser env None) = None \<longrightarrow>
           (\<exists>msg. fst (authenticate env (Some h) w) = Inl (json 401 (Error msg)))))"
proof (intro impI conjI)
  assume h: "h \<noteq> []"
  then show "snd (authenticate env (Some h) w) = issue (Get_user (at (js_split CHR '' '' h) 1)) w"
    by (simp add: authenticate_world token_of_def)
  show "fst (authenticate env (Some h) w) = Inr usr"
    if "resolved (getUser env (at (js_split CHR '' '' h) 1)) = Some usr"
    using that h by (simp add: authenticate_accepts resolved_Some_iff token_of_def)
  assume nospace: "CHR '' '' \<notin> set h"
  then show none: "at (js_split CHR '' '' h) 1 = None"
    using token_of_no_space by (simp add: token_of_def)
  assume "resolved (getUser env None) = None"
  with none have "\<exists>h'. Some h = Some h' \<and> resolved (getUser env (token_of h')) = None"
    by (simp add: token_of_def)
  then show "\<exists>msg. fst (authenticate env (Some h) w) = Inl (json 401 (Error msg))"
    by (intro authenticate_rejects) blast
qed

theorem guard_sends_second_field_witness:
  "fst (authenticate sample_env (Some ''Basic tok-alice'') sample_world) = Inr alice
   \<and> calls (snd (authenticate sample_env (Some ''Basic tok-alice'') sample_world))
       = [Get_user (Some ''tok-alice'')]
   \<and> calls (snd (authenticate sample_env (Some ''Bearer'') sample_world)) = [Get_user None]
   \<and> (\<exists>msg. fst (authenticate sample_env (Some ''Bearer'') sample_world) = Inl (json 401 (Error msg)))"
proof -
  have basic: "''Basic tok-alice'' \<noteq> []"
    and field: "at (js_split CHR '' '' ''Basic tok-alice'') 1 = Some ''tok-alice''"
    and user: "resolved (getUser sample_env (Some ''tok-alice'')) = Some alice"
    by (simp_all add: at_def sample_env_def sample_getUser_def)
  have bearer: "''Bearer'' \<noteq> []" and nospace: "CHR '' '' \<notin> set ''Bearer''"
    and nobody: "resolved (getUser sample_env None) = None"
    by (simp_all add: sample_env_def sample_getUser_def)
  note g1 = guard_sends_second_field [where env = sample_env and h = "''Basic tok-alice''"
      and w = sample_world and usr = alice, THEN mp, OF basic]
  note g2 = guard_sends_second_field [where env = sample_env and h = "''Bearer''"
      and w = sample_world, THEN mp, OF bearer]
  from g1 [THEN conjunct2, THEN conjunct1] field user
  have a: "fst (authenticate sample_env (Some ''Basic tok-alice'') sample_world) = Inr alice"
    by simp
  from g1 [THEN conjunct1] field
  have b: "calls (snd (authenticate sample_env (Some ''Basic tok-alice'') sample_world))
       = [Get_user (Some ''tok-alice'')]"
    by (simp add: sample_world_def)
  from g2 [THEN conjunct2, THEN conjunct2, THEN mp, OF nospace]
  have none: "at (js_split CHR '' '' ''Bearer'') 1 = None"
    and c: "\<exists>msg. fst (authenticate sample_env (Some ''Bearer'') sample_world) = Inl (json 401 (Error msg))"
    using nobody by simp_all
  from g2 [THEN conjunct1] none
  have d: "calls (snd (authenticate sample_env (Some ''Bearer'') sample_world)) = [Get_user None]"
    by (simp add: sample_world_def)
  from a b c d show ?thesis by simp
qed

text \<open>
  C10 as stated fails: in \<^verbatim>\<open>Bearer  tok-alice\<close>, written with two spaces, the second token
  that whitespace separates is \<^verbatim>\<open>tok-alice\<close>, which resolves to a user; the guard sends the
  empty string instead and answers 401.
\<close>

theorem second_whitespace_token_not_sent:
  "second_token ''Bearer  tok-alice'' = Some ''tok-alice''
   \<and> resolved (getUser sample_env (Some ''tok-alice'')) = Some alice
   \<and> calls (snd (authenticate sample_env (Some ''Bearer  tok-alice'') sample_world))
       = [Get_user (Some [])]
   \<and> fst (authenticate sample_env (Some ''Bearer  tok-alice'') sample_world)
       = Inl (json 401 (Error ''Invalid token''))"
  by (simp add: second_token_def whitespace_def at_def token_of_def authenticate_def
      auth_getUser_def issue_def sample_defs)


section \<open>Creating a property\<close>

subsection \<open>The file name: decimal digits\<close>

lemma small_cases:
  assumes "d < 10"
  shows "d = 0 \<or> d = 1 \<or> d = 2 \<or> d = 3 \<or> d = 4 \<or> d = 5 \<or> d = 6 \<or> d = 7 \<or> d = 8 \<or> d = (9::nat)"
proof -
  have "[0..<10] = [0, 1, 2, 3, 4, 5, 6, 7, 8, 9::nat]" by code_simp
  moreover from assms have "d \<in> set [0..<10]" by simp
  ultimately have "d \<in> set [0, 1, 2, 3, 4, 5, 6, 7, 8, 9::nat]" by (simp only:)
  then show ?thesis by simp
qed

lemma digit_code: "d < 10 \<Longrightarrow> (of_char (digit d) :: nat) = 48 + d"
  by (drule small_cases) (auto simp: digit_def)

lemma digit_not_dot: "d < 10 \<Longrightarrow> CHR ''.'' \<noteq> digit d"
  by (drule small_cases) (auto simp: digit_def)

lemma digit_inj:
  assumes "d < 10" and "e < 10" and "digit d = digit e"
  shows "d = e"
proof -
  have "48 + d = (of_char (digit d) :: nat)"
    using assms(1) by (simp only: digit_code)
  also have "\<dots> = of_char (digit e)"
    by (simp only: assms(3))
  also have "\<dots> = 48 + e"
    using assms(2) by (simp only: digit_code)
  finally show ?thesis by simp
qed

lemma decimal_not_Nil [simp]: "decimal n \<noteq> []" "[] \<noteq> decimal n"
  by (subst decimal.simps, simp)+

lemma decimal_dot_free: "CHR ''.'' \<notin> set (decimal n)"
proof (induction n rule: decimal.induct)
  case (1 n)
  show ?case
  proof (cases "n < 10")
    case True
    then show ?thesis by (subst decimal.simps) (simp add: digit_not_dot)
  next
    case False
    with 1 show ?thesis by (subst decimal.simps) (simp add: digit_not_dot)
  qed
qed

lemma decimal_inj: "decimal n = decimal m \<Longrightarrow> n = m"
proof (induction n arbitrary: m rule: decimal.induct)
  case (1 n)
  show ?case
  proof (cases "n < 10")
    case small: True
    show ?thesis
    proof (cases "m < 10")
      case True
      with small 1(2) show ?thesis
        by (simp add: decimal.simps [of n] decimal.simps [of m] digit_inj)
    next
      case False
      with small 1(2) show ?thesis
        by (simp add: decimal.simps [of n] decimal.simps [of m])
    qed
  next
    case large: False
    show ?thesis
    proof (cases "m < 10")
      case True
      with large 1(2) show ?thesis
        by (simp add: decimal.simps [of n] decimal.simps [of m])
    next
      case False
      with large 1(2) have "decimal (n div 10) = decimal (m div 10)"
        and "digit (n mod 10) = digit (m mod 10)"
        by (simp_all add: decimal.simps [of n] decimal.simps [of m])
      with 1(1) [OF large] have "n div 10 = m div 10" and "n mod 10 = m mod 10"
        by (simp_all add: digit_inj)
      then have "n div 10 * 10 + n mod 10 = m div 10 * 10 + m mod 10" by simp
      then show ?thesis by (simp only: div_mult_mod_eq)
    qed
  qed
qed

lemma takeWhile_until:
  assumes "\<forall>c \<in> set xs. P c" and "\<not> P y"
  shows "takeWhile P (xs @ y # ys) = xs"
  using assms by (induction xs) auto

lemma fileName_now:
  assumes "fileName env f = fileName env' f'"
  shows "now env = now env'"
proof -
  let ?P = "\<lambda>c. c \<noteq> CHR ''.''"
  have cut: "takeWhile ?P (decimal n @ CHR ''.'' # e) = decimal n" for n e
    by (rule takeWhile_until) (use decimal_dot_free in auto)
  have "takeWhile ?P (fileName env f) = decimal (now env)"
    "takeWhile ?P (fileName env' f') = decimal (now env')"
    by (simp_all add: fileName_def cut)
  with assms have "decimal (now env) = decimal (now env')" by simp
  then show ?thesis by (rule decimal_inj)
qed

subsection \<open>The steps of the create handler\<close>

lemma upload_image_None: "upload_image env None w = (Inr [], w)"
  by (simp add: upload_image_def)

lemma upload_image_Some:
  "upload_image env (Some f) w =
     (case upload env (filePath env f) f of
        Upload_throws m \<Rightarrow> (Inl (json 500 (Error m)), issue (Upload (filePath env f) f) w)
      | Upload_returns (Some m) \<Rightarrow>
          (Inl (json 500 (Error (''Image upload failed: '' @ m))), issue (Upload (filePath env f) f) w)
      | Upload_returns None \<Rightarrow>
          (Inr (getPublicUrl env (filePath env f)),
           issue (Upload (filePath env f) f) (w\<lparr>objects := objects w @ [(filePath env f, f)]\<rparr>)))"
  by (simp add: upload_image_def storage_upload_def split: upload_reply.splits option.splits)

lemma upload_image_frame:
  "properties (snd (upload_image env img w)) = properties w"
  "\<exists>cs. calls (snd (upload_image env img w)) = calls w @ cs \<and> (\<forall>p. Insert p \<notin> set cs)"
  by (cases img; simp add: upload_image_None upload_image_Some split: upload_reply.splits option.splits)+

lemma upload_image_rejects:
  "fst (upload_image env img w) = Inl r \<Longrightarrow> status r = 500"
  by (cases img) (auto simp: upload_image_None upload_image_Some json_def
      split: upload_reply.splits option.splits)

lemma upload_image_url:
  assumes "fst (upload_image env img w) = Inr url"
  shows "url = (case img of None \<Rightarrow> [] | Some f \<Rightarrow> getPublicUrl env (filePath env f))"
  using assms
  by (cases img) (auto simp: upload_image_None upload_image_Some
      split: upload_reply.splits option.splits)

lemma user_id_stored [simp]: "user_id (stored i p) = user_id p"
  and image_url_stored [simp]: "image_url (stored i p) = image_url p"
  by (simp_all add: stored_def)

lemma post_properties_after_upload:
  assumes "upload_image env img w = (Inr url, w1)"
  shows "post_properties env usr form img w =
     (case db_error env (Insert (newProperty env (id_u usr) form url)) of
        Some m \<Rightarrow> (json 500 (Error m), issue (Insert (newProperty env (id_u usr) form url)) w1)
      | None \<Rightarrow>
          (json 200 (Added (Some (stored (new_id env) (newProperty env (id_u usr) form url)))),
           issue (Insert (newProperty env (id_u usr) form url))
             (w1\<lparr>properties := properties w1
                 @ [stored (new_id env) (newProperty env (id_u usr) form url)]\<rparr>)))"
  using assms by (simp add: post_properties_def insert_row_def at_def split: option.splits)

lemma post_properties_abandoned:
  assumes "upload_image env img w = (Inl r, w1)"
  shows "post_properties env usr form img w = (r, w1)"
  using assms by (simp add: post_properties_def)

text \<open>A response with status 200 comes from the last line of the handler only.\<close>

lemma post_properties_success:
  assumes "status (fst (post_properties env usr form img w)) = 200"
  obtains url w1 where "upload_image env img w = (Inr url, w1)"
    and "post_properties env usr form img w =
          (json 200 (Added (Some (stored (new_id env) (newProperty env (id_u usr) form url)))),
           issue (Insert (newProperty env (id_u usr) form url))
             (w1\<lparr>properties := properties w1
                 @ [stored (new_id env) (newProperty env (id_u usr) form url)]\<rparr>))"
proof -
  obtain x w1 where u: "upload_image env img w = (x, w1)" by (cases "upload_image env img w")
  show thesis
  proof (cases x)
    case (Inl r)
    with u have "fst (upload_image env img w) = Inl r" by simp
    then have "status r = 500" by (rule upload_image_rejects)
    moreover from u Inl have "post_properties env usr form img w = (r, w1)"
      by (simp add: post_properties_abandoned)
    ultimately show ?thesis using assms by simp
  next
    case (Inr url)
    with u have up: "upload_image env img w = (Inr url, w1)" by simp
    note post = post_properties_after_upload [OF up, of usr form]
    show ?thesis
    proof (cases "db_error env (Insert (newProperty env (id_u usr) form url))")
      case None
      with post up that show ?thesis by simp
    next
      case (Some m)
      with post assms show ?thesis by (simp add: json_def)
    qed
  qed
qed

lemma post_properties_inserts:
  "\<exists>cs. calls (snd (post_properties env usr form img w)) = calls w @ cs
      \<and> (\<forall>p. Insert p \<in> set cs \<longrightarrow> (\<exists>url. p = newProperty env (id_u usr) form url))"
proof -
  obtain x w1 where u: "upload_image env img w = (x, w1)" by (cases "upload_image env img w")
  from upload_image_frame(2) [of env img w] u
  obtain cs where cs: "calls w1 = calls w @ cs" "\<forall>p. Insert p \<notin> set cs" by auto
  show ?thesis
  proof (cases x)
    case (Inl r)
    with u cs show ?thesis by (simp add: post_properties_abandoned)
  next
    case (Inr url)
    with u have up: "upload_image env img w = (Inr url, w1)" by simp
    have "calls (snd (post_properties env usr form img w))
        = calls w @ (cs @ [Insert (newProperty env (id_u usr) form url)])"
      using cs(1) by (simp add: post_properties_after_upload [OF up] split: option.splits)
    moreover have "\<forall>p. Insert p \<in> set (cs @ [Insert (newProperty env (id_u usr) form url)])
        \<longrightarrow> (\<exists>url. p = newProperty env (id_u usr) form url)"
      using cs(2) by auto
    ultimately show ?thesis by blast
  qed
qed

subsection \<open>The record and what becomes of it\<close>

lemma newProperty_simps [simp]:
  "user_id (newProperty env uid form url) = uid"
  "image_url (newProperty env uid form url) = url"
  "title (newProperty env uid form url) = text_field (form ''title'')"
  "price (newProperty env uid form url) = or_null (parseInt env) (form ''price'')"
  "lat (newProperty env uid form url) = or_null (parseFloat env) (form ''lat'')"
  "lng (newProperty env uid form url) = or_null (parseFloat env) (form ''lng'')"
  by (simp_all add: newProperty_def)

lemma or_null_cases:
  "v = None \<or> v = Some [] \<Longrightarrow> or_null parse v = Null"
  "v = Some s \<Longrightarrow> s \<noteq> [] \<Longrightarrow> or_null parse v = Num (parse s)"
  "or_null parse v \<noteq> Undefined"
  by (auto simp: or_null_def truthy_def split: option.splits)

lemmas eval_defs = post_properties_def upload_image_def storage_upload_def insert_row_def
  newProperty_def or_null_def truthy_def text_field_def stored_def column_def at_def json_def
  issue_def filePath_def fileName_def fileExt_def pop_def template_def digit_def

lemma sample_create:
  "post_properties sample_env alice lake_house_form None sample_world =
     (json 200 (Added (Some \<lparr>user_id = ''alice'', title = Str ''Lake House'', price = Num ''250000'',
         image_url = [], lat = Num ''47.6'', lng = Num ''-122.3'', id_p = ''3''\<rparr>)),
      \<lparr>properties = [house, flat,
          \<lparr>user_id = ''alice'', title = Str ''Lake House'', price = Num ''250000'',
           image_url = [], lat = Num ''47.6'', lng = Num ''-122.3'', id_p = ''3''\<rparr>],
       objects = [],
       calls = [Insert \<lparr>user_id = ''alice'', title = Str ''Lake House'', price = Num ''250000'',
           image_url = [], lat = Num ''47.6'', lng = Num ''-122.3''\<rparr>]\<rparr>)"
  by (simp add: eval_defs sample_env_def sample_world_def alice_def lake_house_form_def)

text \<open>
  C4.  \<^verbatim>\<open>POST /api/properties\<close> for the authenticated user \<open>usr\<close>.  Every record the
  handler hands to the data service has \<open>usr\<close> as its owner, whatever the request body
  contains (the body is any function of field names, a field \<^verbatim>\<open>user_id\<close> included).  When
  the response is the success response, the last call is the insertion of such a record,
  and the row persisted and returned is owned by \<open>usr\<close>.
\<close>

theorem created_record_owned_by_caller:
  assumes "post_properties env usr form img w = (r, w')"
  shows "(\<forall>cs p. calls w' = calls w @ cs \<and> Insert p \<in> set cs \<longrightarrow> user_id p = id_u usr)
   \<and> (status r = 200 \<longrightarrow>
        (\<exists>p. last (calls w') = Insert p \<and> user_id p = id_u usr
           \<and> last (properties w') = stored (new_id env) p
           \<and> user_id (last (properties w')) = id_u usr
           \<and> r = json 200 (Added (Some (stored (new_id env) p)))))"
proof (intro conjI allI impI)
  fix cs p assume h: "calls w' = calls w @ cs \<and> Insert p \<in> set cs"
  from post_properties_inserts [of env usr form img w] assms
  obtain cs' where cs': "calls w' = calls w @ cs'"
    "\<forall>p. Insert p \<in> set cs' \<longrightarrow> (\<exists>url. p = newProperty env (id_u usr) form url)"
    by auto
  with h have "cs' = cs" by simp
  with cs'(2) h obtain url where "p = newProperty env (id_u usr) form url" by blast
  then show "user_id p = id_u usr" by simp
next
  assume "status r = 200"
  with assms have "status (fst (post_properties env usr form img w)) = 200" by simp
  then obtain url w1 where
    "post_properties env usr form img w =
          (json 200 (Added (Some (stored (new_id env) (newProperty env (id_u usr) form url)))),
           issue (Insert (newProperty env (id_u usr) form url))
             (w1\<lparr>properties := properties w1
                 @ [stored (new_id env) (newProperty env (id_u usr) form url)]\<rparr>))"
    by (rule post_properties_success)
  with assms have "last (calls w') = Insert (newProperty env (id_u usr) form url)"
    and "last (properties w') = stored (new_id env) (newProperty env (id_u usr) form url)"
    and "r = json 200 (Added (Some (stored (new_id env) (newProperty env (id_u usr) form url))))"
    by auto
  then show "\<exists>p. last (calls w') = Insert p \<and> user_id p = id_u usr
           \<and> last (properties w') = stored (new_id env) p
           \<and> user_id (last (properties w')) = id_u usr
           \<and> r = json 200 (Added (Some (stored (new_id env) p)))"
    by (intro exI [of _ "newProperty env (id_u usr) form url"]) simp
qed

theorem created_record_owned_by_caller_witness:
  "lake_house_form ''user_id'' = Some ''bob''
   \<and> user_id (last (properties (snd
        (post_properties sample_env alice lake_house_form None sample_world)))) = ''alice''
   \<and> user_id \<lparr>user_id = ''alice'', title = Str ''Lake House'', price = Num ''250000'',
           image_url = [], lat = Num ''47.6'', lng = Num ''-122.3''\<rparr> = id_u alice"
proof -
  let ?res = "post_properties sample_env alice lake_house_form None sample_world"
  let ?p = "\<lparr>user_id = ''alice'', title = Str ''Lake House'', price = Num ''250000'',
           image_url = [], lat = Num ''47.6'', lng = Num ''-122.3''\<rparr> :: string new_property"
  have eq: "?res = (fst ?res, snd ?res)" by simp
  have ok: "status (fst ?res) = 200" by (simp add: sample_create json_def)
  have sent: "calls (snd ?res) = calls sample_world @ [Insert ?p] \<and> Insert ?p \<in> set [Insert ?p]"
    unfolding sample_create by (simp add: sample_world_def)
  note owned = created_record_owned_by_caller [OF eq]
  from owned [THEN conjunct1, rule_format, OF sent]
  have a: "user_id ?p = id_u alice" .
  from owned [THEN conjunct2, THEN mp, OF ok]
  have "user_id (last (properties (snd ?res))) = id_u alice" by blast
  then have b: "user_id (last (properties (snd ?res))) = ''alice''" by (simp add: alice_def)
  have c: "lake_house_form ''user_id'' = Some ''bob''" by (simp add: lake_house_form_def)
  from a b c show ?thesis by simp
qed

subsection \<open>The extension and the public URL\<close>

lemma js_split_append:
  "js_split c (xs @ c # ys) = js_split c xs @ js_split c ys"
proof (induction xs)
  case Nil
  show ?case by simp
next
  case (Cons x xs)
  show ?case
  proof (cases "x = c")
    case True
    with Cons show ?thesis by simp
  next
    case False
    obtain y yr where y: "js_split c xs = y # yr"
      by (cases "js_split c xs") simp_all
    with Cons False show ?thesis by simp
  qed
qed

lemma pop_last: "xs \<noteq> [] \<Longrightarrow> pop xs = Some (last xs)"
  by (cases xs) (simp_all add: pop_def)

lemma fileExt_after_last_dot:
  assumes "originalname f = stem @ ''.'' @ ext" and "CHR ''.'' \<notin> set ext"
  shows "fileExt f = Some ext"
proof -
  have "js_split CHR ''.'' (originalname f) = js_split CHR ''.'' stem @ [ext]"
    using assms by (simp add: js_split_append js_split_no_separator)
  then show ?thesis by (simp add: fileExt_def pop_last)
qed

lemma fileExt_no_dot:
  assumes "CHR ''.'' \<notin> set (originalname f)"
  shows "fileExt f = Some (originalname f)"
  using assms by (simp add: fileExt_def pop_def js_split_no_separator)

lemma public_url_distinct:
  assumes "n \<noteq> n'"
  shows "base @ ''public/'' @ decimal n @ ''.'' @ ext \<noteq> base @ ''public/'' @ decimal n' @ ''.'' @ ext'"
proof
  let ?P = "\<lambda>c. c \<noteq> CHR ''.''"
  assume "base @ ''public/'' @ decimal n @ ''.'' @ ext = base @ ''public/'' @ decimal n' @ ''.'' @ ext'"
  then have "decimal n @ CHR ''.'' # ext = decimal n' @ CHR ''.'' # ext'" by simp
  then have "takeWhile ?P (decimal n @ CHR ''.'' # ext) = takeWhile ?P (decimal n' @ CHR ''.'' # ext')"
    by (simp only:)
  moreover have "takeWhile ?P (decimal m @ CHR ''.'' # e) = decimal m" for m e
    by (rule takeWhile_until) (use decimal_dot_free in auto)
  ultimately have "decimal n = decimal n'" by simp
  with assms show False by (simp add: decimal_inj)
qed

lemma sample_create_file_status:
  "status (fst (post_properties sample_env alice lake_house_form (Some f) sample_world)) = 200"
  by (simp add: post_properties_def upload_image_def storage_upload_def insert_row_def json_def
      sample_env_def split: prod.splits)

lemma sample_decimal: "decimal 1700000000000 = ''1700000000000''"
  by (simp add: decimal.simps digit_def)

text \<open>
  C5.  For a successful create request the row returned is the row persisted, with the
  image URL of the record sent.  Without an image file that URL is the empty string.  With
  an image file it is not empty: it is the public address of the bucket followed by
  \<^verbatim>\<open>public/\<close>, the timestamp of the request in decimal, a dot and the extension of the
  original file name, which is the part of the name after its last dot, or the whole name
  when it has no dot.  Requests made at different instants get different file names and
  different URLs, whatever the extensions.
\<close>

theorem image_url_empty_or_public:
  "(post_properties env usr form img w = (r, w') \<and> status r = 200 \<longrightarrow>
      (\<exists>row p. body r = Added (Some row) \<and> last (properties w') = row
         \<and> last (calls w') = Insert p \<and> image_url p = image_url row
         \<and> (img = None \<longrightarrow> image_url row = [])
         \<and> (\<forall>f. img = Some f \<longrightarrow>
               image_url row \<noteq> []
             \<and> (\<forall>stem ext. originalname f = stem @ ''.'' @ ext \<and> CHR ''.'' \<notin> set ext \<longrightarrow>
                   image_url row = public_base env @ ''public/'' @ decimal (now env) @ ''.'' @ ext)
             \<and> (CHR ''.'' \<notin> set (originalname f) \<longrightarrow>
                   image_url row
                     = public_base env @ ''public/'' @ decimal (now env) @ ''.'' @ originalname f))))
   \<and> (n \<noteq> n' \<longrightarrow>
        base @ ''public/'' @ decimal n @ ''.'' @ ext \<noteq> base @ ''public/'' @ decimal n' @ ''.'' @ ext')"
proof (intro conjI impI)
  assume a: "post_properties env usr form img w = (r, w') \<and> status r = 200"
  then have "status (fst (post_properties env usr form img w)) = 200" by simp
  then obtain url w1 where up: "upload_image env img w = (Inr url, w1)"
    and post: "post_properties env usr form img w =
          (json 200 (Added (Some (stored (new_id env) (newProperty env (id_u usr) form url)))),
           issue (Insert (newProperty env (id_u usr) form url))
             (w1\<lparr>properties := properties w1
                 @ [stored (new_id env) (newProperty env (id_u usr) form url)]\<rparr>))"
    by (rule post_properties_success)
  let ?p = "newProperty env (id_u usr) form url"
  let ?row = "stored (new_id env) ?p"
  from up have url: "url = (case img of None \<Rightarrow> [] | Some f \<Rightarrow> getPublicUrl env (filePath env f))"
    by (intro upload_image_url [of env img w]) simp
  from a post have r: "body r = Added (Some ?row)" and rows: "last (properties w') = ?row"
    and sent: "last (calls w') = Insert ?p"
    by (auto simp: json_def)
  have same: "image_url ?p = image_url ?row" by simp
  have none: "img = None \<longrightarrow> image_url ?row = []"
    using url by simp
  have some: "image_url ?row \<noteq> []
             \<and> (\<forall>stem ext. originalname f = stem @ ''.'' @ ext \<and> CHR ''.'' \<notin> set ext \<longrightarrow>
                   image_url ?row = public_base env @ ''public/'' @ decimal (now env) @ ''.'' @ ext)
             \<and> (CHR ''.'' \<notin> set (originalname f) \<longrightarrow>
                   image_url ?row
                     = public_base env @ ''public/'' @ decimal (now env) @ ''.'' @ originalname f)"
    if "img = Some f" for f
  proof -
    from url that have u: "image_url ?row
        = public_base env @ ''public/'' @ decimal (now env) @ ''.'' @ template (fileExt f)"
      by (simp add: getPublicUrl_def filePath_def fileName_def)
    then have "image_url ?row \<noteq> []" by simp
    moreover have "image_url ?row = public_base env @ ''public/'' @ decimal (now env) @ ''.'' @ ext"
      if "originalname f = stem @ ''.'' @ ext \<and> CHR ''.'' \<notin> set ext" for stem ext
    proof -
      from that have "fileExt f = Some ext" by (intro fileExt_after_last_dot [of f stem]) simp_all
      with u show ?thesis by (simp add: template_def)
    qed
    moreover have "image_url ?row
        = public_base env @ ''public/'' @ decimal (now env) @ ''.'' @ originalname f"
      if "CHR ''.'' \<notin> set (originalname f)"
      using u fileExt_no_dot [OF that] by (simp add: template_def)
    ultimately show ?thesis by blast
  qed
  from r rows sent same none some
  show "\<exists>row p. body r = Added (Some row) \<and> last (properties w') = row
         \<and> last (calls w') = Insert p \<and> image_url p = image_url row
         \<and> (img = None \<longrightarrow> image_url row = [])
         \<and> (\<forall>f. img = Some f \<longrightarrow>
               image_url row \<noteq> []
             \<and> (\<forall>stem ext. originalname f = stem @ ''.'' @ ext \<and> CHR ''.'' \<notin> set ext \<longrightarrow>
                   image_url row = public_base env @ ''public/'' @ decimal (now env) @ ''.'' @ ext)
             \<and> (CHR ''.'' \<notin> set (originalname f) \<longrightarrow>
                   image_url row
                     = public_base env @ ''public/'' @ decimal (now env) @ ''.'' @ originalname f))"
    by (intro exI [of _ ?row] exI [of _ ?p]) blast
next
  assume "n \<noteq> n'"
  then show "base @ ''public/'' @ decimal n @ ''.'' @ ext \<noteq> base @ ''public/'' @ decimal n' @ ''.'' @ ext'"
    by (rule public_url_distinct)
qed

theorem image_url_empty_or_public_witness:
  "image_url (last (properties (snd
      (post_properties sample_env alice lake_house_form None sample_world)))) = []
   \<and> image_url (last (properties (snd
      (post_properties sample_env alice lake_house_form (Some photo) sample_world))))
       = ''https://storage.example/property-images/public/1700000000000.jpg''
   \<and> image_url (last (properties (snd
      (post_properties sample_env alice lake_house_form (Some photo) sample_world)))) \<noteq> []
   \<and> image_url (last (properties (snd
      (post_properties sample_env alice lake_house_form (Some scan) sample_world))))
       = ''https://storage.example/property-images/public/1700000000000.scan''
   \<and> ''https://storage.example/property-images/'' @ ''public/'' @ decimal 1700000000000 @ ''.'' @ ''jpg''
       \<noteq> ''https://storage.example/property-images/'' @ ''public/'' @ decimal 1700000000001 @ ''.'' @ ''jpg''"
proof -
  let ?plain = "post_properties sample_env alice lake_house_form None sample_world"
  let ?photo = "post_properties sample_env alice lake_house_form (Some photo) sample_world"
  let ?scan = "post_properties sample_env alice lake_house_form (Some scan) sample_world"
  have plain: "?plain = (fst ?plain, snd ?plain) \<and> status (fst ?plain) = 200"
    by (simp add: sample_create json_def)
  have photo: "?photo = (fst ?photo, snd ?photo) \<and> status (fst ?photo) = 200"
    by (simp add: sample_create_file_status)
  have scan: "?scan = (fst ?scan, snd ?scan) \<and> status (fst ?scan) = 200"
    by (simp add: sample_create_file_status)
  have jpg: "originalname photo = ''front.view'' @ ''.'' @ ''jpg'' \<and> CHR ''.'' \<notin> set ''jpg''"
    by (simp add: photo_def)
  have nodot: "CHR ''.'' \<notin> set (originalname scan)"
    by (simp add: scan_def)
  have later: "(1700000000000::nat) \<noteq> 1700000000001"
    by simp
  have base: "public_base sample_env = ''https://storage.example/property-images/''"
    and clock: "now sample_env = 1700000000000"
    by (simp_all add: sample_env_def)
  from image_url_empty_or_public [where env = sample_env and usr = alice
      and form = lake_house_form and img = None and w = sample_world,
      THEN conjunct1, THEN mp, OF plain]
  have a: "image_url (last (properties (snd ?plain))) = []"
    by blast
  from image_url_empty_or_public [where env = sample_env and usr = alice
      and form = lake_house_form and img = "Some photo" and w = sample_world,
      THEN conjunct1, THEN mp, OF photo]
  obtain row where row: "last (properties (snd ?photo)) = row"
    and with_file: "\<forall>f. Some photo = Some f \<longrightarrow>
               image_url row \<noteq> []
             \<and> (\<forall>stem ext. originalname f = stem @ ''.'' @ ext \<and> CHR ''.'' \<notin> set ext \<longrightarrow>
                   image_url row = public_base sample_env @ ''public/'' @ decimal (now sample_env) @ ''.'' @ ext)
             \<and> (CHR ''.'' \<notin> set (originalname f) \<longrightarrow>
                   image_url row
                     = public_base sample_env @ ''public/'' @ decimal (now sample_env) @ ''.'' @ originalname f)"
    by blast
  note p = with_file [rule_format, OF refl]
  from p [THEN conjunct1] row
  have c: "image_url (last (properties (snd ?photo))) \<noteq> []" by simp
  from p [THEN conjunct2, THEN conjunct1, rule_format, OF jpg] row
  have b: "image_url (last (properties (snd ?photo)))
      = ''https://storage.example/property-images/public/1700000000000.jpg''"
    by (simp add: base clock sample_decimal)
  from image_url_empty_or_public [where env = sample_env and usr = alice
      and form = lake_house_form and img = "Some scan" and w = sample_world,
      THEN conjunct1, THEN mp, OF scan]
  obtain row' where row': "last (properties (snd ?scan)) = row'"
    and with_scan: "\<forall>f. Some scan = Some f \<longrightarrow>
               image_url row' \<noteq> []
             \<and> (\<forall>stem ext. originalname f = stem @ ''.'' @ ext \<and> CHR ''.'' \<notin> set ext \<longrightarrow>
                   image_url row' = public_base sample_env @ ''public/'' @ decimal (now sample_env) @ ''.'' @ ext)
             \<and> (CHR ''.'' \<notin> set (originalname f) \<longrightarrow>
                   image_url row'
                     = public_base sample_env @ ''public/'' @ decimal (now sample_env) @ ''.'' @ originalname f)"
    by blast
  from with_scan [rule_format, OF refl, THEN conjunct2, THEN conjunct2, THEN mp, OF nodot] row'
  have d: "image_url (last (properties (snd ?scan)))
      = ''https://storage.example/property-images/public/1700000000000.scan''"
    by (simp add: base clock sample_decimal scan_def)
  from image_url_empty_or_public [where n = 1700000000000 and n' = 1700000000001
      and base = "''https://storage.example/property-images/''" and ext = "''jpg''" and ext' = "''jpg''",
      THEN conjunct2, THEN mp, OF later]
  have e: "''https://storage.example/property-images/'' @ ''public/'' @ decimal 1700000000000 @ ''.'' @ ''jpg''
       \<noteq> ''https://storage.example/property-images/'' @ ''public/'' @ decimal 1700000000001 @ ''.'' @ ''jpg''" .
  from a b c d e show ?thesis by (intro conjI)
qed

text \<open>
  C6.  When the upload of the image returns an error, the response is 500 with the
  message \<^verbatim>\<open>Image upload failed: \<close> followed by the error's message; the upload is the only
  call made, so nothing is inserted, and the table and the stored objects are unchanged.
\<close>

theorem upload_error_abandons_creation:
  assumes "upload env (filePath env f) f = Upload_returns (Some m)"
  shows "fst (post_properties env usr form (Some f) w)
       = json 500 (Error (''Image upload failed: '' @ m))
   \<and> properties (snd (post_properties env usr form (Some f) w)) = properties w
   \<and> objects (snd (post_properties env usr form (Some f) w)) = objects w
   \<and> calls (snd (post_properties env usr form (Some f) w)) = calls w @ [Upload (filePath env f) f]"
proof -
  from assms have "upload_image env (Some f) w =
      (Inl (json 500 (Error (''Image upload failed: '' @ m))), issue (Upload (filePath env f) f) w)"
    by (simp add: upload_image_Some)
  then have "post_properties env usr form (Some f) w =
      (json 500 (Error (''Image upload failed: '' @ m)), issue (Upload (filePath env f) f) w)"
    by (rule post_properties_abandoned)
  then show ?thesis by simp
qed

theorem upload_error_abandons_creation_witness:
  "fst (post_properties (sample_env\<lparr>upload := \<lambda>path f. Upload_returns (Some ''bucket is full'')\<rparr>)
          alice lake_house_form (Some photo) sample_world)
     = json 500 (Error ''Image upload failed: bucket is full'')
   \<and> properties (snd (post_properties
          (sample_env\<lparr>upload := \<lambda>path f. Upload_returns (Some ''bucket is full'')\<rparr>)
          alice lake_house_form (Some photo) sample_world)) = properties sample_world"
proof -
  let ?env = "sample_env\<lparr>upload := \<lambda>path f. Upload_returns (Some ''bucket is full'')\<rparr>"
  have "upload ?env (filePath ?env photo) photo = Upload_returns (Some ''bucket is full'')"
    by simp
  from upload_error_abandons_creation [OF this, of alice lake_house_form sample_world]
  show ?thesis by simp
qed

text \<open>
  An exception thrown by the upload reaches the \<^verbatim>\<open>catch\<close> of the handler instead: 500
  with the message of the exception, and again nothing is inserted.
\<close>

lemma upload_exception_abandons_creation:
  assumes "upload env (filePath env f) f = Upload_throws m"
  shows "post_properties env usr form (Some f) w =
      (json 500 (Error m), issue (Upload (filePath env f) f) w)"
proof -
  from assms have "upload_image env (Some f) w =
      (Inl (json 500 (Error m)), issue (Upload (filePath env f) f) w)"
    by (simp add: upload_image_Some)
  then show ?thesis by (rule post_properties_abandoned)
qed

text \<open>
  C8.  The record that the create handler sends is \<open>newProperty\<close>.  In it the price is
  \<^verbatim>\<open>parseInt\<close> of the text of the field, and latitude and longitude are \<^verbatim>\<open>parseFloat\<close> of
  theirs, when the field is present and not empty; a field that is absent or empty gives
  \<^verbatim>\<open>null\<close>.  None of the three is ever left out of the record.
\<close>

theorem numeric_fields_parsed_or_null:
  "(\<forall>cs np. calls (snd (post_properties env usr form img w)) = calls w @ cs \<and> Insert np \<in> set cs
       \<longrightarrow> (\<exists>url. np = newProperty env (id_u usr) form url))
   \<and> (form ''price'' = None \<or> form ''price'' = Some [] \<longrightarrow>
        price (newProperty env uid form url) = Null)
   \<and> (form ''price'' = Some s \<and> s \<noteq> [] \<longrightarrow>
        price (newProperty env uid form url) = Num (parseInt env s))
   \<and> (form ''lat'' = None \<or> form ''lat'' = Some [] \<longrightarrow>
        lat (newProperty env uid form url) = Null)
   \<and> (form ''lat'' = Some s \<and> s \<noteq> [] \<longrightarrow>
        lat (newProperty env uid form url) = Num (parseFloat env s))
   \<and> (form ''lng'' = None \<or> form ''lng'' = Some [] \<longrightarrow>
        lng (newProperty env uid form url) = Null)
   \<and> (form ''lng'' = Some s \<and> s \<noteq> [] \<longrightarrow>
        lng (newProperty env uid form url) = Num (parseFloat env s))
   \<and> price (newProperty env uid form url) \<noteq> Undefined
   \<and> lat (newProperty env uid form url) \<noteq> Undefined
   \<and> lng (newProperty env uid form url) \<noteq> Undefined"
proof -
  have "\<exists>url. np = newProperty env (id_u usr) form url"
    if "calls (snd (post_properties env usr form img w)) = calls w @ cs \<and> Insert np \<in> set cs"
    for cs np
  proof -
    from post_properties_inserts [of env usr form img w]
    obtain cs' where cs': "calls (snd (post_properties env usr form img w)) = calls w @ cs'"
      "\<forall>p. Insert p \<in> set cs' \<longrightarrow> (\<exists>url. p = newProperty env (id_u usr) form url)"
      by auto
    with that have "cs' = cs" by simp
    with cs'(2) that show ?thesis by blast
  qed
  then have sent: "\<forall>cs np. calls (snd (post_properties env usr form img w)) = calls w @ cs
       \<and> Insert np \<in> set cs \<longrightarrow> (\<exists>url. np = newProperty env (id_u usr) form url)"
    by blast
  have fields: "(form ''price'' = None \<or> form ''price'' = Some [] \<longrightarrow>
        price (newProperty env uid form url) = Null)
   \<and> (form ''price'' = Some s \<and> s \<noteq> [] \<longrightarrow>
        price (newProperty env uid form url) = Num (parseInt env s))
   \<and> (form ''lat'' = None \<or> form ''lat'' = Some [] \<longrightarrow>
        lat (newProperty env uid form url) = Null)
   \<and> (form ''lat'' = Some s \<and> s \<noteq> [] \<longrightarrow>
        lat (newProperty env uid form url) = Num (parseFloat env s))
   \<and> (form ''lng'' = None \<or> form ''lng'' = Some [] \<longrightarrow>
        lng (newProperty env uid form url) = Null)
   \<and> (form ''lng'' = Some s \<and> s \<noteq> [] \<longrightarrow>
        lng (newProperty env uid form url) = Num (parseFloat env s))
   \<and> price (newProperty env uid form url) \<noteq> Undefined
   \<and> lat (newProperty env uid form url) \<noteq> Undefined
   \<and> lng (newProperty env uid form url) \<noteq> Undefined"
    by (simp add: or_null_cases)
  from sent fields show ?thesis by (rule conjI)
qed

theorem numeric_fields_parsed_or_null_witness:
  "price (newProperty sample_env ''alice'' lake_house_form []) = Num ''250000''
   \<and> lat (newProperty sample_env ''alice'' lake_house_form []) = Num ''47.6''
   \<and> lng (newProperty sample_env ''alice'' lake_house_form []) = Num ''-122.3''
   \<and> price (newProperty sample_env ''alice'' (\<lambda>k. if k = ''price'' then Some [] else None) []) = Null
   \<and> lat (newProperty sample_env ''alice'' (\<lambda>k. if k = ''price'' then Some [] else None) []) = Null
   \<and> lng (newProperty sample_env ''alice'' (\<lambda>k. if k = ''price'' then Some [] else None) []) = Null
   \<and> (\<exists>url. \<lparr>user_id = ''alice'', title = Str ''Lake House'', price = Num ''250000'',
           image_url = [], lat = Num ''47.6'', lng = Num ''-122.3''\<rparr>
         = newProperty sample_env (id_u alice) lake_house_form url)"
proof -
  let ?blank = "\<lambda>k. if k = ''price'' then Some [] else (None :: string option)"
  let ?res = "post_properties sample_env alice lake_house_form None sample_world"
  let ?p = "\<lparr>user_id = ''alice'', title = Str ''Lake House'', price = Num ''250000'',
           image_url = [], lat = Num ''47.6'', lng = Num ''-122.3''\<rparr> :: string new_property"
  note full = numeric_fields_parsed_or_null [where env = sample_env and form = lake_house_form
      and uid = "''alice''" and url = "[]" and usr = alice and img = None and w = sample_world]
  note blank = numeric_fields_parsed_or_null [where env = sample_env and form = ?blank
      and uid = "''alice''" and url = "[]"]
  have price: "lake_house_form ''price'' = Some ''250000'' \<and> ''250000'' \<noteq> []"
    and lat: "lake_house_form ''lat'' = Some ''47.6'' \<and> ''47.6'' \<noteq> []"
    and lng: "lake_house_form ''lng'' = Some ''-122.3'' \<and> ''-122.3'' \<noteq> []"
    by (simp_all add: lake_house_form_def)
  have empty: "?blank ''price'' = None \<or> ?blank ''price'' = Some []"
    and nolat: "?blank ''lat'' = None \<or> ?blank ''lat'' = Some []"
    and nolng: "?blank ''lng'' = None \<or> ?blank ''lng'' = Some []"
    by simp_all
  have sent: "calls (snd ?res) = calls sample_world @ [Insert ?p] \<and> Insert ?p \<in> set [Insert ?p]"
    unfolding sample_create by (simp add: sample_world_def)
  from full [where s = "''250000''"] price
  have a: "price (newProperty sample_env ''alice'' lake_house_form []) = Num (parseInt sample_env ''250000'')"
    by simp
  from full [where s = "''47.6''"] lat
  have b: "lat (newProperty sample_env ''alice'' lake_house_form []) = Num (parseFloat sample_env ''47.6'')"
    by simp
  from full [where s = "''-122.3''"] lng
  have c: "lng (newProperty sample_env ''alice'' lake_house_form []) = Num (parseFloat sample_env ''-122.3'')"
    by simp
  from blank empty
  have d: "price (newProperty sample_env ''alice'' ?blank []) = Null" by simp
  from blank nolat
  have e: "lat (newProperty sample_env ''alice'' ?blank []) = Null" by simp
  from blank nolng
  have f: "lng (newProperty sample_env ''alice'' ?blank []) = Null" by simp
  from full [THEN conjunct1, rule_format, OF sent]
  have g: "\<exists>url. ?p = newProperty sample_env (id_u alice) lake_house_form url" .
  from a b c d e f g show ?thesis by (simp add: sample_env_def)
qed

end
